theory Spec2Isabelle
  imports Complex_Main
begin

section \<open>Errors raised by the pipeline\<close>

text \<open>
  Every exception the preprocessing code can raise is a value of this type; a function
  that may raise returns \<open>error + 'a\<close>, with \<open>Inl\<close> for the exception.
\<close>

datatype error = IndexError | KeyError | ValueError | DateParseError | OutOfBoundsDatetime

section \<open>The category classifier\<close>

subsection \<open>Python's \<open>str.split()\<close> and \<open>int()\<close>\<close>

text \<open>
  Sheet names are strings over the code points 0 to 255. \<open>str.split()\<close> without
  arguments cuts at runs of whitespace and yields no empty token; the whitespace
  code points below 256 are 9 to 13, 28 to 32, 133 and 160.
\<close>

definition is_space :: "char \<Rightarrow> bool" where
  "is_space c = (of_char c \<in> {9, 10, 11, 12, 13, 28, 29, 30, 31, 32, 133, 160 :: nat})"

fun split_from :: "string \<Rightarrow> string \<Rightarrow> string list" where
  "split_from tok [] = (if tok = [] then [] else [tok])"
| "split_from tok (c # cs) =
     (if is_space c then (if tok = [] then split_from [] cs else tok # split_from [] cs)
      else split_from (tok @ [c]) cs)"

definition py_split :: "string \<Rightarrow> string list" where
  "py_split s = split_from [] s"

text \<open>\<open>xs[-1]\<close>: the last element, IndexError on the empty list.\<close>

definition last_item :: "'a list \<Rightarrow> error + 'a" where
  "last_item xs = (case xs of [] \<Rightarrow> Inl IndexError | y # ys \<Rightarrow> Inr (last (y # ys)))"

text \<open>
  \<open>int(s)\<close> in base 10 on a token without whitespace: an optional sign, then decimal
  digits, where single underscores may stand between two digits. Anything else raises
  ValueError. The interpreter also refuses a literal of more than \<open>max_str_digits\<close>
  digits (the setting \<open>sys.set_int_max_str_digits\<close>: 4300 by default, 0 for no limit,
  and never applied below 641 digits); the limit is a parameter of the model.
\<close>

definition is_digit :: "char \<Rightarrow> bool" where
  "is_digit c = (48 \<le> (of_char c :: nat) \<and> (of_char c :: nat) \<le> 57)"

definition digit_val :: "char \<Rightarrow> int" where
  "digit_val c = int (of_char c) - 48"

fun well_grouped :: "string \<Rightarrow> bool" where
  "well_grouped [] = False"
| "well_grouped [c] = is_digit c"
| "well_grouped (c # d # r) =
     (is_digit c \<and> (if d = CHR ''_'' then well_grouped r else well_grouped (d # r)))"

definition py_int :: "nat \<Rightarrow> string \<Rightarrow> error + int" where
  "py_int max_str_digits s =
     (let negative = (case s of [] \<Rightarrow> False | c # _ \<Rightarrow> c = CHR ''-'');
          body = (case s of [] \<Rightarrow> []
                  | c # r \<Rightarrow> if c = CHR ''-'' \<or> c = CHR ''+'' then r else c # r);
          ds = filter is_digit body
      in if well_grouped body
         then (if 640 < length ds \<and> 0 < max_str_digits \<and> max_str_digits < length ds
               then Inl ValueError
               else let v = foldl (\<lambda>a c. 10 * a + digit_val c) 0 ds
                    in Inr (if negative then - v else v))
         else Inl ValueError)"

subsection \<open>The ranges and the classifier\<close>

text \<open>\<open>range(a, b)\<close> holds the integers from \<open>a\<close> up to \<open>b - 1\<close>.\<close>

definition py_range :: "int \<Rightarrow> int \<Rightarrow> int list" where
  "py_range a b = [a..b - 1]"

definition SHEETS_INDEX_FOOD :: "int list" where
  "SHEETS_INDEX_FOOD = py_range 1 76"

definition SHEETS_INDEX_HOUSING_ENERGY :: "int list" where
  "SHEETS_INDEX_HOUSING_ENERGY = py_range 76 109"

definition SHEETS_INDEX_TRANSPORT :: "int list" where
  "SHEETS_INDEX_TRANSPORT = py_range 109 151"

text \<open>
  The \<open>try\<close> block covers the split, the index \<open>[-1]\<close> and \<open>int\<close>: any exception
  there gives \<open>Other\<close>.
\<close>

definition map_sheet_to_category :: "nat \<Rightarrow> string \<Rightarrow> string" where
  "map_sheet_to_category max_str_digits sheet_name =
     (case last_item (py_split sheet_name) of
        Inl _ \<Rightarrow> ''Other''
      | Inr tok \<Rightarrow>
          (case py_int max_str_digits tok of
             Inl _ \<Rightarrow> ''Other''
           | Inr idx \<Rightarrow>
               if idx \<in> set SHEETS_INDEX_FOOD then ''Food''
               else if idx \<in> set SHEETS_INDEX_HOUSING_ENERGY then ''Housing & Energy''
               else if idx \<in> set SHEETS_INDEX_TRANSPORT then ''Transport''
               else ''Other''))"

text \<open>
  The trailing whitespace-delimited token of a string, read from its end: skip the
  whitespace that ends the string, then take the characters back to the next whitespace
  or to the start. A string of whitespace only, or the empty string, has none.
\<close>

definition trailing_token :: "string \<Rightarrow> string option" where
  "trailing_token s =
     (let r = dropWhile is_space (rev s)
      in if r = [] then None else Some (rev (takeWhile (\<lambda>c. \<not> is_space c) r)))"

section \<open>Tables\<close>

text \<open>
  A DataFrame is modelled column by column, as pandas stores it: a list of columns, each
  a label with its cells, top to bottom. A cell holds text, a float, a timestamp or the
  missing marker (pandas' NaN, and NaT in a column of dates). Floats are the finite
  reals and the two infinities; NaN is the missing marker, as \<open>dropna\<close> reads it.
  Labels are cells too: a header read from a workbook can be text, a date or empty.
  The behaviour modelled is that of pandas 2.
\<close>

datatype pyfloat = Finite real | PosInf | NegInf

datatype timestamp = Timestamp int int int

datatype cell = Str string | Num pyfloat | Stamp timestamp | NaN

type_synonym frame = "(cell \<times> cell list) list"

definition nrows :: "frame \<Rightarrow> nat" where
  "nrows df = (case df of [] \<Rightarrow> 0 | (_, vs) # _ \<Rightarrow> length vs)"

text \<open>Every column of a DataFrame has the same number of cells.\<close>

definition rectangular :: "frame \<Rightarrow> bool" where
  "rectangular df = list_all (\<lambda>(l, vs). length vs = nrows df) df"

subsection \<open>The scalar conversions of the library\<close>

text \<open>
  The parsers of pandas are not part of the repository; they are parameters of the
  model, one record of functions:
  \<^item> \<open>parse_datetime\<close>: what the parser of single values makes of a text. It raises
    (\<open>Fails\<close>, with the exception), yields NaT (\<open>Null\<close>, for the empty text and the
    texts pandas reads as missing) or yields a timestamp;
  \<^item> \<open>guess_format\<close>: the format pandas guesses from a text, if any;
  \<^item> \<open>strptime\<close>: a text read under a format: an exception when it does not fit;
  \<^item> \<open>epoch_datetime\<close>: a number read as an offset from the epoch;
  \<^item> \<open>parse_numeric\<close> and \<open>stamp_numeric\<close>: what \<open>to_numeric\<close> with
    \<open>errors="coerce"\<close> makes of a text and of a timestamp: a float or nothing;
  \<^item> \<open>repr_float\<close> and \<open>repr_stamp\<close>: how \<open>str\<close> prints a float and a timestamp.
\<close>

datatype 'a parsed = Fails error | Null | Parsed 'a

record library =
  parse_datetime :: "string \<Rightarrow> timestamp parsed"
  guess_format :: "string \<Rightarrow> string option"
  strptime :: "string \<Rightarrow> string \<Rightarrow> error + timestamp"
  epoch_datetime :: "pyfloat \<Rightarrow> error + timestamp"
  parse_numeric :: "string \<Rightarrow> pyfloat option"
  stamp_numeric :: "timestamp \<Rightarrow> pyfloat option"
  repr_float :: "pyfloat \<Rightarrow> string"
  repr_stamp :: "timestamp \<Rightarrow> string"

definition astype_str :: "library \<Rightarrow> cell \<Rightarrow> cell" where
  "astype_str L c =
     (case c of
        Str s \<Rightarrow> Str s
      | Num x \<Rightarrow> Str (repr_float L x)
      | Stamp d \<Rightarrow> Str (repr_stamp L d)
      | NaN \<Rightarrow> Str ''nan'')"

text \<open>One cell converted on its own, as pandas does when it has no format.\<close>

definition to_datetime_cell :: "library \<Rightarrow> cell \<Rightarrow> timestamp parsed" where
  "to_datetime_cell L c =
     (case c of
        Str s \<Rightarrow> parse_datetime L s
      | Num x \<Rightarrow> (case epoch_datetime L x of Inl e \<Rightarrow> Fails e | Inr d \<Rightarrow> Parsed d)
      | Stamp d \<Rightarrow> Parsed d
      | NaN \<Rightarrow> Null)"

text \<open>
  One cell converted under a format: a null text and a missing cell give NaT, a
  timestamp stays, any other text must fit the format, and a number is printed and must
  fit it too.
\<close>

definition strptime_cell :: "library \<Rightarrow> string \<Rightarrow> cell \<Rightarrow> timestamp parsed" where
  "strptime_cell L f c =
     (case c of
        Str s \<Rightarrow>
          (if parse_datetime L s = Null then Null
           else case strptime L f s of Inl e \<Rightarrow> Fails e | Inr d \<Rightarrow> Parsed d)
      | Num x \<Rightarrow> (case strptime L f (repr_float L x) of Inl e \<Rightarrow> Fails e | Inr d \<Rightarrow> Parsed d)
      | Stamp d \<Rightarrow> Parsed d
      | NaN \<Rightarrow> Null)"

text \<open>
  The format of a series is guessed from its first cell that is not null, when that
  cell is a text that parses; otherwise the series has no format and every cell is
  converted on its own.
\<close>

definition first_non_null :: "library \<Rightarrow> cell list \<Rightarrow> cell option" where
  "first_non_null L cs =
     (case filter (\<lambda>c. to_datetime_cell L c \<noteq> Null) cs of [] \<Rightarrow> None | c # _ \<Rightarrow> Some c)"

definition series_format :: "library \<Rightarrow> cell list \<Rightarrow> string option" where
  "series_format L cs =
     (case first_non_null L cs of
        None \<Rightarrow> None
      | Some c \<Rightarrow>
          (case c of
             Str s \<Rightarrow>
               (case parse_datetime L s of
                  Parsed d \<Rightarrow> guess_format L s
                | Null \<Rightarrow> None
                | Fails e \<Rightarrow> None)
           | Num x \<Rightarrow> None
           | Stamp d \<Rightarrow> None
           | NaN \<Rightarrow> None))"

definition convert_cell :: "library \<Rightarrow> string option \<Rightarrow> cell \<Rightarrow> timestamp parsed" where
  "convert_cell L fmt c =
     (case fmt of None \<Rightarrow> to_datetime_cell L c | Some f \<Rightarrow> strptime_cell L f c)"

definition datetime_cell :: "library \<Rightarrow> string option \<Rightarrow> cell \<Rightarrow> cell" where
  "datetime_cell L fmt c =
     (case convert_cell L fmt c of Parsed d \<Rightarrow> Stamp d | Null \<Rightarrow> NaN | Fails e \<Rightarrow> NaN)"

text \<open>The exception of the first cell whose conversion raises, from top to bottom.\<close>

fun first_failure :: "('a \<Rightarrow> 'b parsed) \<Rightarrow> 'a list \<Rightarrow> error option" where
  "first_failure conv [] = None"
| "first_failure conv (c # cs) =
     (case conv c of
        Fails e \<Rightarrow> Some e
      | Null \<Rightarrow> first_failure conv cs
      | Parsed d \<Rightarrow> first_failure conv cs)"

text \<open>
  \<open>pd.to_datetime(series)\<close> with the default \<open>errors="raise"\<close>, one call on the whole
  column: the format is that of the series, and the first cell that cannot be converted
  raises for the whole series.
\<close>

definition to_datetime :: "library \<Rightarrow> cell list \<Rightarrow> error + cell list" where
  "to_datetime L cs =
     (let fmt = series_format L cs
      in case first_failure (convert_cell L fmt) cs of
           Some e \<Rightarrow> Inl e
         | None \<Rightarrow> Inr (map (datetime_cell L fmt) cs))"

text \<open>
  \<open>pd.to_numeric(series, errors="coerce")\<close>, cell by cell: a float stays, a missing
  cell stays missing, a text is parsed, and what becomes of a timestamp is the
  library's answer.
\<close>

definition to_numeric_cell :: "library \<Rightarrow> cell \<Rightarrow> cell" where
  "to_numeric_cell L c =
     (case c of
        Str s \<Rightarrow> (case parse_numeric L s of Some x \<Rightarrow> Num x | None \<Rightarrow> NaN)
      | Num x \<Rightarrow> Num x
      | Stamp d \<Rightarrow> (case stamp_numeric L d of Some x \<Rightarrow> Num x | None \<Rightarrow> NaN)
      | NaN \<Rightarrow> NaN)"

subsection \<open>The DataFrame operations the code calls\<close>

text \<open>\<open>df.iloc[:, idxs]\<close>: the columns at the given positions; IndexError out of bounds.\<close>

definition iloc_columns :: "frame \<Rightarrow> nat list \<Rightarrow> error + frame" where
  "iloc_columns df idxs =
     (if list_all (\<lambda>i. i < length df) idxs then Inr (map (\<lambda>i. df ! i) idxs)
      else Inl IndexError)"

text \<open>\<open>df.replace(old, new)\<close>: every cell equal to \<open>old\<close>; labels are not touched.\<close>

definition replace_value :: "cell \<Rightarrow> cell \<Rightarrow> frame \<Rightarrow> frame" where
  "replace_value old new df = map (\<lambda>(l, vs). (l, map (\<lambda>c. if c = old then new else c) vs)) df"

text \<open>\<open>df.rename(columns=mapper)\<close> for a dict from text to text.\<close>

definition rename_label :: "(string \<times> string) list \<Rightarrow> cell \<Rightarrow> cell" where
  "rename_label mapper l =
     (case l of
        Str s \<Rightarrow> (case map_of mapper s of Some t \<Rightarrow> Str t | None \<Rightarrow> Str s)
      | Num x \<Rightarrow> Num x
      | Stamp d \<Rightarrow> Stamp d
      | NaN \<Rightarrow> NaN)"

definition rename_columns :: "(string \<times> string) list \<Rightarrow> frame \<Rightarrow> frame" where
  "rename_columns mapper df = map (\<lambda>(l, vs). (rename_label mapper l, vs)) df"

definition columns_labelled :: "cell \<Rightarrow> frame \<Rightarrow> frame" where
  "columns_labelled l df = filter (\<lambda>(l', vs). l' = l) df"

text \<open>
  \<open>df.melt(id_vars=i, var_name=v, value_name=w)\<close>. A column already labelled \<open>w\<close> is a
  ValueError, no column labelled \<open>i\<close> a KeyError, and several columns labelled \<open>i\<close>
  cannot be tiled into one: pandas raises there too, and the model records a ValueError
  for it whatever the class of that exception. Otherwise the identifier column is
  repeated once per value column, each value column's label is repeated once per row,
  and the value columns are laid end to end.
\<close>

definition melt :: "string \<Rightarrow> string \<Rightarrow> string \<Rightarrow> frame \<Rightarrow> error + frame" where
  "melt id_var var_name value_name df =
     (if columns_labelled (Str value_name) df \<noteq> [] then Inl ValueError
      else case columns_labelled (Str id_var) df of
          [] \<Rightarrow> Inl KeyError
        | [(_, ids)] \<Rightarrow>
            (let vals = filter (\<lambda>(l, vs). l \<noteq> Str id_var) df
             in Inr [(Str id_var, concat (replicate (length vals) ids)),
                     (Str var_name, concat (map (\<lambda>(l, vs). replicate (length ids) l) vals)),
                     (Str value_name, concat (map snd vals))])
        | _ # _ # _ \<Rightarrow> Inl ValueError)"

text \<open>\<open>df[label]\<close> and \<open>df[label] = values\<close> on a frame that has the label once.\<close>

definition get_column :: "string \<Rightarrow> frame \<Rightarrow> cell list" where
  "get_column label df = (case columns_labelled (Str label) df of [] \<Rightarrow> [] | (_, vs) # _ \<Rightarrow> vs)"

definition set_column :: "string \<Rightarrow> cell list \<Rightarrow> frame \<Rightarrow> frame" where
  "set_column label new df = map (\<lambda>(l, vs). if l = Str label then (l, new) else (l, vs)) df"

text \<open>
  Boolean indexing of the rows, and \<open>dropna\<close>: a row stays when none of its cells is
  missing.
\<close>

definition select_rows :: "bool list \<Rightarrow> cell list \<Rightarrow> cell list" where
  "select_rows keep vs = map fst (filter snd (zip vs keep))"

definition loc_rows :: "bool list \<Rightarrow> frame \<Rightarrow> frame" where
  "loc_rows keep df = map (\<lambda>(l, vs). (l, select_rows keep vs)) df"

definition notna_mask :: "frame \<Rightarrow> bool list" where
  "notna_mask df = map (\<lambda>i. list_all (\<lambda>(l, vs). vs ! i \<noteq> NaN) df) [0..<nrows df]"

definition dropna :: "frame \<Rightarrow> frame" where
  "dropna df = loc_rows (notna_mask df) df"

section \<open>The sheet cleaner\<close>

text \<open>
  The positions kept by \<open>[0] + [i for i in range(len(columns)) if i % 2 != 0]\<close>.
\<close>

definition selected_positions :: "frame \<Rightarrow> nat list" where
  "selected_positions df = 0 # filter (\<lambda>i. i mod 2 \<noteq> 0) [0..<length df]"

text \<open>
  The first statement of \<open>cleaning_dataframe\<close>: column selection, the two replacements,
  the renaming of TIME and the melt. \<open>reset_index(drop=True)\<close> renumbers the rows and
  changes no cell.
\<close>

definition reshape :: "frame \<Rightarrow> error + frame" where
  "reshape df =
     (case iloc_columns df (selected_positions df) of
        Inl e \<Rightarrow> Inl e
      | Inr kept \<Rightarrow>
          melt ''Country'' ''Date'' ''HICP''
            (rename_columns [(''TIME'', ''Country'')]
              (replace_value (Str ''d'') NaN (replace_value (Str '':'') NaN kept))))"

text \<open>The three assignments and \<open>dropna(inplace=True)\<close>.\<close>

definition enforce_types :: "library \<Rightarrow> frame \<Rightarrow> error + frame" where
  "enforce_types L df =
     (let df1 = set_column ''Country'' (map (astype_str L) (get_column ''Country'' df)) df
      in case to_datetime L (get_column ''Date'' df1) of
           Inl e \<Rightarrow> Inl e
         | Inr dates \<Rightarrow>
             (let df2 = set_column ''Date'' dates df1;
                  df3 = set_column ''HICP'' (map (to_numeric_cell L) (get_column ''HICP'' df2)) df2
              in Inr (dropna df3)))"

definition cleaning_dataframe :: "library \<Rightarrow> frame \<Rightarrow> error + frame" where
  "cleaning_dataframe L df =
     (case reshape df of Inl e \<Rightarrow> Inl e | Inr long \<Rightarrow> enforce_types L long)"

subsection \<open>The cleaner's result, row by row\<close>

text \<open>
  The columns the selection keeps, the identifier column among them (the one labelled
  TIME or Country), and the period columns (the others).
\<close>

definition retained :: "frame \<Rightarrow> frame" where
  "retained df = map (\<lambda>i. df ! i) (selected_positions df)"

definition is_id_label :: "cell \<Rightarrow> bool" where
  "is_id_label l = (l = Str ''TIME'' \<or> l = Str ''Country'')"

definition id_values :: "frame \<Rightarrow> cell list" where
  "id_values df = (case filter (\<lambda>(l, vs). is_id_label l) (retained df) of
                     [] \<Rightarrow> [] | (_, vs) # _ \<Rightarrow> vs)"

definition period_columns :: "frame \<Rightarrow> frame" where
  "period_columns df = filter (\<lambda>(l, vs). \<not> is_id_label l) (retained df)"

text \<open>
  The raw observations in column-major order: for each period column from left to
  right, one triple (identifier cell, period label, value cell) per row from top to
  bottom.
\<close>

definition melted_rows :: "cell list \<Rightarrow> frame \<Rightarrow> (cell \<times> cell \<times> cell) list" where
  "melted_rows ids periods =
     concat (map (\<lambda>(l, vs). map (\<lambda>(c, v). (c, l, v)) (zip ids vs)) periods)"

definition normalise :: "cell \<Rightarrow> cell" where
  "normalise c = (if c = Str '':'' \<or> c = Str ''d'' then NaN else c)"

text \<open>
  The Date column before its conversion (the period label of every raw observation),
  the format pandas infers for it, and the exception its conversion raises, if any.
\<close>

definition labels_of :: "(cell \<times> cell \<times> cell) list \<Rightarrow> cell list" where
  "labels_of rows = map (\<lambda>r. fst (snd r)) rows"

definition period_labels :: "frame \<Rightarrow> cell list" where
  "period_labels df = labels_of (melted_rows (id_values df) (period_columns df))"

definition label_format :: "library \<Rightarrow> frame \<Rightarrow> string option" where
  "label_format L df = series_format L (period_labels df)"

definition date_failure :: "library \<Rightarrow> frame \<Rightarrow> error option" where
  "date_failure L df = first_failure (convert_cell L (label_format L df)) (period_labels df)"

text \<open>One raw observation after the replacements and the three conversions.\<close>

definition observation ::
  "library \<Rightarrow> string option \<Rightarrow> cell \<times> cell \<times> cell \<Rightarrow> cell \<times> cell \<times> cell" where
  "observation L fmt r =
     (case r of (c, l, v) \<Rightarrow>
        (astype_str L (normalise c), datetime_cell L fmt l, to_numeric_cell L (normalise v)))"

definition complete_row :: "cell \<times> cell \<times> cell \<Rightarrow> bool" where
  "complete_row r = (case r of (c, d, h) \<Rightarrow> c \<noteq> NaN \<and> d \<noteq> NaN \<and> h \<noteq> NaN)"

definition long_frame :: "(cell \<times> cell \<times> cell) list \<Rightarrow> frame" where
  "long_frame rows =
     [(Str ''Country'', map fst rows),
      (Str ''Date'', map (\<lambda>r. fst (snd r)) rows),
      (Str ''HICP'', map (\<lambda>r. snd (snd r)) rows)]"

section \<open>The summary loader\<close>

text \<open>
  \<open>load_summary\<close> after \<open>pd.read_excel\<close>: the table read from the summary sheet is the
  argument. \<open>columns_map\<close> is a dict, an association list in insertion order.
  \<open>cols_to_keep[0]\<close> raises IndexError on an empty dict, \<open>df[key]\<close> and \<open>.loc\<close> raise
  KeyError for a key that labels no column, and a first key that labels several columns
  gives a two-dimensional mask that \<open>.loc\<close> refuses.
\<close>

definition load_summary :: "frame \<Rightarrow> (string \<times> string) list \<Rightarrow> error + frame" where
  "load_summary df columns_map =
     (let cols_to_keep = map fst columns_map
      in case cols_to_keep of
           [] \<Rightarrow> Inl IndexError
         | k0 # _ \<Rightarrow>
             (case columns_labelled (Str k0) df of
                [] \<Rightarrow> Inl KeyError
              | [(_, key_values)] \<Rightarrow>
                  if list_ex (\<lambda>k. columns_labelled (Str k) df = []) cols_to_keep
                  then Inl KeyError
                  else Inr (rename_columns columns_map
                         (dropna
                           (loc_rows (map (\<lambda>c. c \<noteq> Str ''Contents'') key_values)
                             (concat (map (\<lambda>k. columns_labelled (Str k) df) cols_to_keep)))))
              | _ # _ # _ \<Rightarrow> Inl ValueError))"

section \<open>A library instance for the examples\<close>

text \<open>
  The closed examples below need one library. This one gives the results of pandas on
  the texts the examples use: 2020-01 and 2020-02 parse to the first day of the month
  and have the format \<open>%Y-%m\<close>, 2020-02-15 parses to that day and does not fit
  \<open>%Y-%m\<close>, Date and GEO are no dates (DateParseError), inf is the float infinity,
  99.5 a number and abc none. No example depends on what it answers elsewhere.
\<close>

definition scenario_library :: library where
  "scenario_library =
     \<lparr> parse_datetime = (\<lambda>s. if s = ''2020-01'' then Parsed (Timestamp 2020 1 1)
                              else if s = ''2020-02'' then Parsed (Timestamp 2020 2 1)
                              else if s = ''2020-02-15'' then Parsed (Timestamp 2020 2 15)
                              else Fails DateParseError),
       guess_format = (\<lambda>s. if s = ''2020-01'' \<or> s = ''2020-02'' then Some ''%Y-%m''
                            else if s = ''2020-02-15'' then Some ''%Y-%m-%d''
                            else None),
       strptime = (\<lambda>f s. if f = ''%Y-%m'' \<and> s = ''2020-01'' then Inr (Timestamp 2020 1 1)
                          else if f = ''%Y-%m'' \<and> s = ''2020-02'' then Inr (Timestamp 2020 2 1)
                          else if f = ''%Y-%m-%d'' \<and> s = ''2020-02-15''
                            then Inr (Timestamp 2020 2 15)
                          else Inl ValueError),
       epoch_datetime = (\<lambda>x. Inl OutOfBoundsDatetime),
       parse_numeric = (\<lambda>s. if s = ''inf'' then Some PosInf
                             else if s = ''99.5'' then Some (Finite 99.5)
                             else None),
       stamp_numeric = (\<lambda>d. None),
       repr_float = (\<lambda>x. ''float''),
       repr_stamp = (\<lambda>d. ''timestamp'') \<rparr>"

section \<open>Auxiliary notions for the proofs and the examples\<close>

text \<open>
  The type enforcement on the raw observations: the conversion of the Date column
  raises, or the observations are converted and the incomplete ones dropped.
\<close>

definition converted_rows :: "library \<Rightarrow> (cell \<times> cell \<times> cell) list \<Rightarrow> error + frame" where
  "converted_rows L rows =
     (case first_failure (convert_cell L (series_format L (labels_of rows))) (labels_of rows) of
        Some e \<Rightarrow> Inl e
      | None \<Rightarrow>
          Inr (long_frame (filter complete_row
                 (map (observation L (series_format L (labels_of rows))) rows))))"

text \<open>
  One column after the two replacements and the renaming: the label TIME becomes
  Country, the cells \<open>:\<close> and \<open>d\<close> become missing.
\<close>

definition prepared :: "cell \<times> cell list \<Rightarrow> cell \<times> cell list" where
  "prepared col = (case col of (l, vs) \<Rightarrow> (if l = Str ''TIME'' then Str ''Country'' else l, map normalise vs))"

text \<open>
  The sheet of the specification's scenario: the columns TIME, 2020-01, a merge artifact,
  2020-02, a merge artifact, and the rows (FR, 100.0, x, :, y) and (DE, d, x, 99.5, y).
\<close>

definition scenario_sheet :: frame where
  "scenario_sheet =
     [(Str ''TIME'', [Str ''FR'', Str ''DE'']),
      (Str ''2020-01'', [Num (Finite 100), Str ''d'']),
      (Str ''mergeArtifact'', [Str ''x'', Str ''x'']),
      (Str ''2020-02'', [Str '':'', Num (Finite 99.5)]),
      (Str ''mergeArtifact'', [Str ''y'', Str ''y''])]"

text \<open>
  The reasons for which the cleaner loses an observation, read on the raw sheet: the
  value cell is one of the two placeholders, the value cell is already missing, the
  period label is a null label (missing, or a text pandas reads as missing) and so gives
  no date, or the value is present and \<open>to_numeric\<close> turns it into the missing marker.
\<close>

definition is_placeholder :: "cell \<Rightarrow> bool" where
  "is_placeholder v = (v = Str '':'' \<or> v = Str ''d'')"

definition no_date :: "library \<Rightarrow> cell \<Rightarrow> bool" where
  "no_date L l = (to_datetime_cell L l = Null)"

definition coercion_fails :: "library \<Rightarrow> cell \<Rightarrow> bool" where
  "coercion_fails L v = (v \<noteq> NaN \<and> to_numeric_cell L v = NaN)"

definition dropped :: "library \<Rightarrow> cell \<times> cell \<times> cell \<Rightarrow> bool" where
  "dropped L r =
     (case r of (c, l, v) \<Rightarrow>
        is_placeholder v \<or> v = NaN \<or> no_date L l \<or> coercion_fails L v)"

text \<open>The kinds of cells of a cleaned table.\<close>

definition is_text :: "cell \<Rightarrow> bool" where
  "is_text c = (case c of Str s \<Rightarrow> True | Num x \<Rightarrow> False | Stamp d \<Rightarrow> False | NaN \<Rightarrow> False)"

definition is_stamp :: "cell \<Rightarrow> bool" where
  "is_stamp c = (case c of Str s \<Rightarrow> False | Num x \<Rightarrow> False | Stamp d \<Rightarrow> True | NaN \<Rightarrow> False)"

definition is_number :: "cell \<Rightarrow> bool" where
  "is_number c = (case c of Str s \<Rightarrow> False | Num x \<Rightarrow> True | Stamp d \<Rightarrow> False | NaN \<Rightarrow> False)"

definition finite_value :: "cell \<Rightarrow> bool" where
  "finite_value c =
     (case c of
        Num x \<Rightarrow> (case x of Finite r \<Rightarrow> True | PosInf \<Rightarrow> False | NegInf \<Rightarrow> False)
      | Str s \<Rightarrow> False | Stamp d \<Rightarrow> False | NaN \<Rightarrow> False)"

text \<open>Example sheets.\<close>

definition cleaned_scenario :: frame where
  "cleaned_scenario =
     [(Str ''Country'', [Str ''FR'', Str ''DE'']),
      (Str ''Date'', [Stamp (Timestamp 2020 1 1), Stamp (Timestamp 2020 2 1)]),
      (Str ''HICP'', [Num (Finite 100), Num (Finite 99.5)])]"

definition blank_sheet :: frame where
  "blank_sheet =
     [(Str ''TIME'', [Str ''FR'', Str ''DE'']),
      (Str ''2020-01'', [NaN, Num (Finite 99.5)])]"

definition infinite_sheet :: frame where
  "infinite_sheet =
     [(Str ''TIME'', [Str ''FR'', Str ''DE'']),
      (Str ''2020-01'', [Num PosInf, Str ''inf''])]"

definition geo_sheet :: frame where
  "geo_sheet =
     [(Str ''GEO'', [Str ''FR'']),
      (Str ''2020-01'', [Num (Finite 100)])]"

definition unparsed_sheet :: frame where
  "unparsed_sheet =
     [(Str ''TIME'', [Str ''FR'']),
      (Str ''GEO'', [Num (Finite 100)])]"

definition text_sheet :: frame where
  "text_sheet =
     [(Str ''Country'', [Str ''FR'', Str ''DE'']),
      (Str ''2020-02'', [Str ''abc'', Str ''99.5''])]"

definition rowless_sheet :: frame where
  "rowless_sheet =
     [(Str ''TIME'', []),
      (Str ''GEO'', [])]"

definition null_label_sheet :: frame where
  "null_label_sheet =
     [(Str ''TIME'', [Str ''FR'']),
      (NaN, [Num (Finite 100)])]"

definition mixed_sheet :: frame where
  "mixed_sheet =
     [(Str ''TIME'', [Str ''FR'']),
      (Str ''2020-01'', [Num (Finite 100)]),
      (Str ''2020-01'', [Str ''x'']),
      (Str ''2020-02-15'', [Num (Finite 101)])]"

definition late_label_sheet :: frame where
  "late_label_sheet =
     [(Str ''TIME'', [Str ''FR'']),
      (Str ''2020-01'', [Num (Finite 100)]),
      (Str ''2020-01'', [Str ''x'']),
      (Str ''GEO'', [Num (Finite 101)])]"

definition full_sheet :: frame where
  "full_sheet =
     [(Str ''TIME'', [Str ''FR'', Str ''DE'']),
      (Str ''2020-01'', [Num (Finite 1), Num (Finite 2)]),
      (Str ''2020-01'', [Str ''x'', Str ''x'']),
      (Str ''2020-02'', [Num (Finite 3), Num (Finite 4)]),
      (Str ''2020-02'', [Str ''y'', Str ''y''])]"

text \<open>
  The summary loader, row by row: the positions of the rows that survive, for the keys of
  the map in their order. A row survives when its cell under the first key is not the
  text Contents and none of its cells under the keys is missing.
\<close>

definition surviving_rows :: "frame \<Rightarrow> string list \<Rightarrow> nat list" where
  "surviving_rows df keys =
     filter (\<lambda>i. get_column (hd keys) df ! i \<noteq> Str ''Contents''
                 \<and> list_all (\<lambda>k. get_column k df ! i \<noteq> NaN) keys)
       [0..<nrows df]"

text \<open>
  A summary sheet with a Contents row, two full rows and a row without a base period,
  and the map the loaders of the repository pass.
\<close>

definition summary_sheet :: frame where
  "summary_sheet =
     [(Str ''Unnamed: 0'', [NaN, NaN, NaN, NaN]),
      (Str ''Unnamed: 1'', [Str ''Contents'', Str ''Sheet 1'', Str ''Sheet 2'', Str ''Sheet 3'']),
      (Str ''Unnamed: 3'', [NaN, Str ''2015=100'', NaN, Str ''2015=100'']),
      (Str ''Unnamed: 4'', [NaN, Str ''All-items HICP'', Str ''Food'', Str ''Energy''])]"

definition summary_columns :: "(string \<times> string) list" where
  "summary_columns =
     [(''Unnamed: 1'', ''sheet_name''), (''Unnamed: 3'', ''base''), (''Unnamed: 4'', ''description'')]"

section \<open>Properties of the classifier\<close>

lemma split_from_token:
  "\<forall>c \<in> set tok. \<not> is_space c \<Longrightarrow> acc @ tok \<noteq> [] \<Longrightarrow> split_from acc tok = [acc @ tok]"
  by (induction tok arbitrary: acc) auto

lemma split_from_trailing:
  assumes "is_space w" and "\<forall>c \<in> set tok. \<not> is_space c" and "tok \<noteq> []"
  shows "split_from acc (p @ w # tok) \<noteq> [] \<and> last (split_from acc (p @ w # tok)) = tok"
  using assms
proof (induction p arbitrary: acc)
  case Nil
  then show ?case using split_from_token [of tok "[]"] by simp
next
  case (Cons c p)
  then show ?case by simp
qed

lemma in_ranges:
  "idx \<in> set SHEETS_INDEX_FOOD \<longleftrightarrow> 1 \<le> idx \<and> idx < 76"
  "idx \<in> set SHEETS_INDEX_HOUSING_ENERGY \<longleftrightarrow> 76 \<le> idx \<and> idx < 109"
  "idx \<in> set SHEETS_INDEX_TRANSPORT \<longleftrightarrow> 109 \<le> idx \<and> idx < 151"
  unfolding SHEETS_INDEX_FOOD_def SHEETS_INDEX_HOUSING_ENERGY_def
    SHEETS_INDEX_TRANSPORT_def py_range_def set_upto atLeastAtMost_iff
  by auto

lemma classifier_scenarios:
  "map_sheet_to_category m ''Sheet 1'' = ''Food''"
  "map_sheet_to_category m ''Sheet 76'' = ''Housing & Energy''"
  "map_sheet_to_category m ''Sheet 200'' = ''Other''"
  "map_sheet_to_category m ''NoNumber'' = ''Other''"
  "map_sheet_to_category m [] = ''Other''"
  by (simp_all add: map_sheet_to_category_def py_split_def last_item_def is_space_def
      py_int_def is_digit_def digit_val_def in_ranges)

lemma split_from_spaces:
  "\<forall>c \<in> set q. is_space c \<Longrightarrow> split_from acc q = (if acc = [] then [] else [acc])"
  by (induction q arbitrary: acc) auto

lemma split_from_append_spaces:
  "\<forall>c \<in> set q. is_space c \<Longrightarrow> split_from acc (xs @ q) = split_from acc xs"
  by (induction xs arbitrary: acc) (auto simp: split_from_spaces)

lemma last_item_trailing_token:
  "last_item (py_split s) =
     (case trailing_token s of None \<Rightarrow> Inl IndexError | Some tok \<Rightarrow> Inr tok)"
proof -
  define r where "r = dropWhile is_space (rev s)"
  define q where "q = rev (takeWhile is_space (rev s))"
  have "rev s = takeWhile is_space (rev s) @ r"
    unfolding r_def by simp
  then have "rev (rev s) = rev r @ q"
    unfolding q_def by (metis rev_append)
  then have s: "s = rev r @ q" by simp
  have q: "\<forall>c \<in> set q. is_space c"
    unfolding q_def by (auto dest: set_takeWhileD)
  have sp: "py_split s = split_from [] (rev r)"
    unfolding py_split_def by (subst s) (rule split_from_append_spaces [OF q])
  show ?thesis
  proof (cases "r = []")
    case True
    then show ?thesis
      by (simp add: sp trailing_token_def r_def [symmetric] last_item_def)
  next
    case False
    define tok where "tok = rev (takeWhile (\<lambda>c. \<not> is_space c) r)"
    define p where "p = rev (dropWhile (\<lambda>c. \<not> is_space c) r)"
    have "r = takeWhile (\<lambda>c. \<not> is_space c) r @ dropWhile (\<lambda>c. \<not> is_space c) r"
      by simp
    then have "rev r = p @ tok"
      unfolding p_def tok_def by (metis rev_append)
    then have body: "py_split s = split_from [] (p @ tok)" by (simp add: sp)
    have "\<not> is_space (hd r)"
      using False hd_dropWhile [of is_space "rev s"] unfolding r_def by simp
    then have tokne: "tok \<noteq> []"
      using False unfolding tok_def by (cases r) auto
    have tokns: "\<forall>c \<in> set tok. \<not> is_space c"
      unfolding tok_def by (auto dest: set_takeWhileD)
    have tt: "trailing_token s = Some tok"
      using False by (simp add: trailing_token_def r_def [symmetric] tok_def Let_def)
    have "last_item (split_from [] (p @ tok)) = Inr tok"
    proof (cases "p = []")
      case True
      then show ?thesis
        using split_from_token [OF tokns, of "[]"] tokne by (simp add: last_item_def)
    next
      case pne: False
      then have dne: "dropWhile (\<lambda>c. \<not> is_space c) r \<noteq> []"
        unfolding p_def by simp
      have "last p = hd (dropWhile (\<lambda>c. \<not> is_space c) r)"
        unfolding p_def using dne by (simp add: last_rev)
      then have w: "is_space (last p)"
        using hd_dropWhile [OF dne] by simp
      have "p @ tok = (butlast p @ [last p]) @ tok" using pne by simp
      then have eq: "p @ tok = butlast p @ last p # tok"
        by (simp only: append_assoc append_Cons append_Nil)
      have st: "split_from [] (butlast p @ last p # tok) \<noteq> []
            \<and> last (split_from [] (butlast p @ last p # tok)) = tok"
        by (rule split_from_trailing [OF w tokns tokne])
      show ?thesis
        unfolding eq using st
        by (cases "split_from [] (butlast p @ last p # tok)") (auto simp: last_item_def)
    qed
    then show ?thesis by (simp add: body tt)
  qed
qed

text \<open>
  Claim C6. Whatever the sheet name, the classifier reads its trailing
  whitespace-delimited token as an integer: the category is Other when the name has no
  token or \<open>int\<close> refuses the token, and otherwise Food on [1, 76), Housing & Energy on
  [76, 109), Transport on [109, 151) and Other elsewhere. Sheet 1 is Food, Sheet 76 is
  Housing & Energy, Sheet 200 and NoNumber are Other.
\<close>

theorem classify_trailing_token:
  "map_sheet_to_category m s =
     (case trailing_token s of
        None \<Rightarrow> ''Other''
      | Some tok \<Rightarrow>
          (case py_int m tok of
             Inl e \<Rightarrow> ''Other''
           | Inr i \<Rightarrow>
               if 1 \<le> i \<and> i < 76 then ''Food''
               else if 76 \<le> i \<and> i < 109 then ''Housing & Energy''
               else if 109 \<le> i \<and> i < 151 then ''Transport''
               else ''Other''))
   \<and> map_sheet_to_category m ''Sheet 1'' = ''Food''
   \<and> map_sheet_to_category m ''Sheet 76'' = ''Housing & Energy''
   \<and> map_sheet_to_category m ''Sheet 200'' = ''Other''
   \<and> map_sheet_to_category m ''NoNumber'' = ''Other''"
proof -
  have "map_sheet_to_category m s =
     (case trailing_token s of
        None \<Rightarrow> ''Other''
      | Some tok \<Rightarrow>
          (case py_int m tok of
             Inl e \<Rightarrow> ''Other''
           | Inr i \<Rightarrow>
               if 1 \<le> i \<and> i < 76 then ''Food''
               else if 76 \<le> i \<and> i < 109 then ''Housing & Energy''
               else if 109 \<le> i \<and> i < 151 then ''Transport''
               else ''Other''))"
    unfolding map_sheet_to_category_def last_item_trailing_token
    by (simp add: in_ranges split: option.splits sum.splits)
  then show ?thesis by (simp add: classifier_scenarios)
qed

text \<open>
  The statement at a name that ends with whitespace, at a name of whitespace only and
  at a name whose token has an underscore.
\<close>

theorem classify_trailing_token_witness:
  "trailing_token ''Sheet 5 '' = Some ''5''
   \<and> map_sheet_to_category 4300 ''Sheet 5 '' = ''Food''
   \<and> trailing_token ''  '' = None
   \<and> map_sheet_to_category 4300 ''  '' = ''Other''
   \<and> trailing_token ''Sheet 1_00'' = Some ''1_00''
   \<and> map_sheet_to_category 4300 ''Sheet 1_00'' = ''Housing & Energy''"
  using classify_trailing_token [of 4300 "''Sheet 5 ''"]
    classify_trailing_token [of 4300 "''  ''"]
    classify_trailing_token [of 4300 "''Sheet 1_00''"]
  by (simp add: trailing_token_def is_space_def py_int_def is_digit_def digit_val_def)

text \<open>
  Claim C7. The classifier is total: whatever the string, the empty one included, every
  exception of the split, of the index and of \<open>int\<close> is caught and the result is one of
  the four category names. The three ranges hold the integers 1 to 75, 76 to 108 and
  109 to 150, and no two of them share an integer.
\<close>

theorem classify_total:
  "map_sheet_to_category m s \<in> {''Food'', ''Housing & Energy'', ''Transport'', ''Other''}
   \<and> map_sheet_to_category m [] = ''Other''
   \<and> set SHEETS_INDEX_FOOD = {1..75}
   \<and> set SHEETS_INDEX_HOUSING_ENERGY = {76..108}
   \<and> set SHEETS_INDEX_TRANSPORT = {109..150}
   \<and> set SHEETS_INDEX_FOOD \<inter> set SHEETS_INDEX_HOUSING_ENERGY = {}
   \<and> set SHEETS_INDEX_FOOD \<inter> set SHEETS_INDEX_TRANSPORT = {}
   \<and> set SHEETS_INDEX_HOUSING_ENERGY \<inter> set SHEETS_INDEX_TRANSPORT = {}"
proof -
  have r: "set SHEETS_INDEX_FOOD = {1..75}" "set SHEETS_INDEX_HOUSING_ENERGY = {76..108}"
    "set SHEETS_INDEX_TRANSPORT = {109..150}"
    unfolding SHEETS_INDEX_FOOD_def SHEETS_INDEX_HOUSING_ENERGY_def
      SHEETS_INDEX_TRANSPORT_def py_range_def set_upto by simp_all
  have t: "map_sheet_to_category m s \<in> {''Food'', ''Housing & Energy'', ''Transport'', ''Other''}"
    by (simp add: map_sheet_to_category_def split: sum.splits)
  show ?thesis unfolding r using t by (simp add: classifier_scenarios)
qed

theorem classify_total_witness:
  "map_sheet_to_category 4300 ''Sheet x1'' = ''Other''
   \<and> map_sheet_to_category 4300 ''+1_0'' = ''Food''
   \<and> map_sheet_to_category 4300 ''a -7'' = ''Other''"
  using classify_total [of 4300 "''Sheet x1''"]
  by (simp add: map_sheet_to_category_def py_split_def last_item_def is_space_def
      py_int_def is_digit_def digit_val_def in_ranges)

section \<open>Properties of the table operations and of the cleaner\<close>

lemma select_rows_map:
  "select_rows (map Q xs) (map f xs) = map f (filter Q xs)"
  by (induction xs) (auto simp: select_rows_def)

lemma map_index: "map (\<lambda>i. g (T ! i)) [0..<length T] = map g T"
  by (rule nth_equalityI) auto

lemma dropna_rows:
  "dropna (map (\<lambda>(l, f). (l, map f T)) specs) =
     map (\<lambda>(l, f). (l, map f (filter (\<lambda>t. list_all (\<lambda>(l, f). f t \<noteq> NaN) specs) T))) specs"
proof (cases specs)
  case Nil
  then show ?thesis by (simp add: dropna_def loc_rows_def)
next
  case (Cons sp rest)
  obtain l0 f0 where sp: "sp = (l0, f0)" by (cases sp)
  let ?df = "map (\<lambda>(l, f). (l, map f T)) specs"
  have n: "nrows ?df = length T" by (simp add: Cons sp nrows_def)
  have "notna_mask ?df = map (\<lambda>i. list_all (\<lambda>(l, f). f (T ! i) \<noteq> NaN) specs) [0..<length T]"
    unfolding notna_mask_def n
    by (rule map_cong) (auto simp: list_all_iff)
  then have m: "notna_mask ?df = map (\<lambda>t. list_all (\<lambda>(l, f). f t \<noteq> NaN) specs) T"
    by (simp add: map_index [where g = "\<lambda>t. list_all (\<lambda>(l, f). f t \<noteq> NaN) specs"])
  show ?thesis
    unfolding dropna_def m loc_rows_def
    by (simp add: select_rows_map case_prod_unfold)
qed

lemma long_frame_specs:
  "long_frame rows =
     map (\<lambda>(l, f). (l, map f rows))
       [(Str ''Country'', fst), (Str ''Date'', \<lambda>r. fst (snd r)), (Str ''HICP'', \<lambda>r. snd (snd r))]"
  by (simp add: long_frame_def)

lemma dropna_long_frame: "dropna (long_frame rows) = long_frame (filter complete_row rows)"
proof -
  have c: "(\<lambda>t. list_all (\<lambda>(l, f). f t \<noteq> NaN)
       [(Str ''Country'', fst), (Str ''Date'', \<lambda>r. fst (snd r)), (Str ''HICP'', \<lambda>r. snd (snd r))])
     = complete_row"
    by (auto simp: complete_row_def fun_eq_iff)
  show ?thesis
    unfolding long_frame_specs dropna_rows c ..
qed

lemma melted_columns:
  assumes "\<forall>(l, vs) \<in> set vals. length vs = length ids"
  shows "map fst (melted_rows ids vals) = concat (replicate (length vals) ids)"
    and "map (\<lambda>r. fst (snd r)) (melted_rows ids vals) =
           concat (map (\<lambda>(l, vs). replicate (length ids) l) vals)"
    and "map (\<lambda>r. snd (snd r)) (melted_rows ids vals) = concat (map snd vals)"
  using assms
proof (induction vals)
  case Nil
  { case 1 show ?case by (simp add: melted_rows_def) }
  { case 2 show ?case by (simp add: melted_rows_def) }
  { case 3 show ?case by (simp add: melted_rows_def) }
next
  case (Cons a vals)
  obtain l vs where a: "a = (l, vs)" by (cases a)
  { case 1
    then have len: "length vs = length ids" and rest: "\<forall>(l, vs) \<in> set vals. length vs = length ids"
      by (auto simp: a)
    have "map fst (map (\<lambda>(c, v). (c, l, v)) (zip ids vs)) = ids"
      using len by (simp add: case_prod_unfold comp_def)
    with Cons.IH(1) [OF rest] show ?case by (simp add: melted_rows_def a) }
  { case 2
    then have len: "length vs = length ids" and rest: "\<forall>(l, vs) \<in> set vals. length vs = length ids"
      by (auto simp: a)
    have "map (\<lambda>r. fst (snd r)) (map (\<lambda>(c, v). (c, l, v)) (zip ids vs)) = replicate (length ids) l"
      using len by (simp add: case_prod_unfold comp_def map_replicate_const)
    with Cons.IH(2) [OF rest] show ?case by (simp add: melted_rows_def a) }
  { case 3
    then have len: "length vs = length ids" and rest: "\<forall>(l, vs) \<in> set vals. length vs = length ids"
      by (auto simp: a)
    have "map (\<lambda>r. snd (snd r)) (map (\<lambda>(c, v). (c, l, v)) (zip ids vs)) = vs"
      using len by (simp add: case_prod_unfold comp_def)
    with Cons.IH(3) [OF rest] show ?case by (simp add: melted_rows_def a) }
qed


lemma melt_frame:
  assumes "\<forall>(l, vs) \<in> set vals. length vs = length ids"
  shows "[(Str ''Country'', concat (replicate (length vals) ids)),
          (Str ''Date'', concat (map (\<lambda>(l, vs). replicate (length ids) l) vals)),
          (Str ''HICP'', concat (map snd vals))] = long_frame (melted_rows ids vals)"
  by (simp add: long_frame_def melted_columns [OF assms])

lemma enforce_frame:
  "enforce_types L (long_frame R) =
     (case first_failure (convert_cell L (series_format L (labels_of R))) (labels_of R) of
        Some e \<Rightarrow> Inl e
      | None \<Rightarrow>
          Inr (long_frame (filter complete_row
            (map (\<lambda>r. (astype_str L (fst r),
                        datetime_cell L (series_format L (labels_of R)) (fst (snd r)),
                        to_numeric_cell L (snd (snd r)))) R))))"
proof -
  have "enforce_types L (long_frame R) =
     (case first_failure (convert_cell L (series_format L (labels_of R))) (labels_of R) of
        Some e \<Rightarrow> Inl e
      | None \<Rightarrow>
          Inr (dropna (long_frame
            (map (\<lambda>r. (astype_str L (fst r),
                        datetime_cell L (series_format L (labels_of R)) (fst (snd r)),
                        to_numeric_cell L (snd (snd r)))) R))))"
    unfolding enforce_types_def long_frame_def labels_of_def
    by (simp add: get_column_def set_column_def columns_labelled_def to_datetime_def
        Let_def comp_def split: option.splits)
  then show ?thesis by (simp only: dropna_long_frame)
qed

lemma labels_of_normalised:
  "labels_of (map (\<lambda>r. (normalise (fst r), fst (snd r), normalise (snd (snd r)))) T) =
   labels_of T"
  by (simp add: labels_of_def comp_def)

lemma observation_normalised:
  "map (\<lambda>r. (astype_str L (fst r), datetime_cell L fmt (fst (snd r)),
              to_numeric_cell L (snd (snd r))))
     (map (\<lambda>r. (normalise (fst r), fst (snd r), normalise (snd (snd r)))) T) =
   map (observation L fmt) T"
  by (simp add: observation_def comp_def case_prod_unfold)

lemma enforce_long_frame:
  "enforce_types L
     (long_frame (map (\<lambda>r. (normalise (fst r), fst (snd r), normalise (snd (snd r)))) T)) =
   converted_rows L T"
  unfolding enforce_frame labels_of_normalised observation_normalised converted_rows_def ..

lemma replace_twice:
  "replace_value (Str ''d'') NaN (replace_value (Str '':'') NaN df) =
     map (\<lambda>(l, vs). (l, map normalise vs)) df"
  by (auto simp: replace_value_def normalise_def)

lemma rename_time: "rename_label [(''TIME'', ''Country'')] l = (if l = Str ''TIME'' then Str ''Country'' else l)"
  by (cases l) (auto simp: rename_label_def)

lemma prepare_frame:
  "rename_columns [(''TIME'', ''Country'')]
     (replace_value (Str ''d'') NaN (replace_value (Str '':'') NaN df)) = map prepared df"
  by (simp add: replace_twice rename_columns_def rename_time prepared_def case_prod_unfold)

lemma prepared_labels:
  "columns_labelled (Str ''Country'') (map prepared df) = map prepared (filter (\<lambda>(l, vs). is_id_label l) df)"
  "filter (\<lambda>(l, vs). l \<noteq> Str ''Country'') (map prepared df) = map prepared (filter (\<lambda>(l, vs). \<not> is_id_label l) df)"
  by (induction df) (auto simp: columns_labelled_def prepared_def is_id_label_def)

lemma hicp_clash:
  "(columns_labelled (Str ''HICP'') (map prepared df) = []) =
     (\<not> list_ex (\<lambda>(l, vs). l = Str ''HICP'') df)"
  by (induction df) (auto simp: columns_labelled_def prepared_def split: if_splits)

lemma melted_rows_prepared:
  "melted_rows (map normalise ids) (map prepared (filter (\<lambda>(l, vs). \<not> is_id_label l) df)) =
     map (\<lambda>r. (normalise (fst r), fst (snd r), normalise (snd (snd r))))
       (melted_rows ids (filter (\<lambda>(l, vs). \<not> is_id_label l) df))"
  by (induction df)
     (auto simp: melted_rows_def prepared_def is_id_label_def zip_map_map case_prod_unfold)

lemma iloc_selected:
  "iloc_columns df (selected_positions df) = (if df = [] then Inl IndexError else Inr (retained df))"
  by (auto simp: iloc_columns_def selected_positions_def retained_def list_all_iff)

lemma retained_subset: "df \<noteq> [] \<Longrightarrow> set (retained df) \<subseteq> set df"
  by (auto simp: retained_def selected_positions_def)

lemma retained_lengths:
  assumes "rectangular df" and "df \<noteq> []" and "(l, vs) \<in> set (retained df)"
  shows "length vs = nrows df"
  using assms retained_subset [of df] by (auto simp: rectangular_def list_all_iff)

lemma reshape_cases:
  assumes "rectangular df"
  shows "reshape df =
     (if df = [] then Inl IndexError
      else if list_ex (\<lambda>(l, vs). l = Str ''HICP'') (retained df) then Inl ValueError
      else case filter (\<lambda>(l, vs). is_id_label l) (retained df) of
          [] \<Rightarrow> Inl KeyError
        | [(h, ids)] \<Rightarrow>
            Inr (long_frame
              (map (\<lambda>r. (normalise (fst r), fst (snd r), normalise (snd (snd r))))
                (melted_rows ids (period_columns df))))
        | _ # _ # _ \<Rightarrow> Inl ValueError)"
proof (cases "df = []")
  case True
  then show ?thesis by (simp add: reshape_def iloc_selected)
next
  case ne: False
  let ?R = "retained df"
  have r: "reshape df = melt ''Country'' ''Date'' ''HICP'' (map prepared ?R)"
    using ne by (simp add: reshape_def iloc_selected prepare_frame)
  note h = hicp_clash
  show ?thesis
  proof (cases "filter (\<lambda>(l, vs). is_id_label l) ?R")
    case Nil
    then show ?thesis using ne by (simp add: r melt_def h prepared_labels)
  next
    case (Cons a rest)
    obtain l0 ids where a: "a = (l0, ids)" by (cases a)
    show ?thesis
    proof (cases rest)
      case (Cons b more)
      then show ?thesis
        using ne \<open>filter (\<lambda>(l, vs). is_id_label l) ?R = a # rest\<close>
        by (simp add: r melt_def h prepared_labels a prepared_def split: prod.splits)
    next
      case Nil
      have f: "filter (\<lambda>(l, vs). is_id_label l) ?R = [(l0, ids)]"
        using \<open>filter (\<lambda>(l, vs). is_id_label l) ?R = a # rest\<close> Nil a by simp
      have "(l0, ids) \<in> set (filter (\<lambda>(l, vs). is_id_label l) ?R)"
        unfolding f by simp
      then have "(l0, ids) \<in> set ?R" by simp
      then have idlen: "length ids = nrows df"
        using retained_lengths [OF assms ne] by blast
      have lens: "\<forall>(l, vs) \<in> set (map prepared (filter (\<lambda>(l, vs). \<not> is_id_label l) ?R)).
                    length vs = length (map normalise ids)"
        using retained_lengths [OF assms ne] idlen by (auto simp: prepared_def)
      show ?thesis
        using ne
        by (simp add: r melt_def h prepared_labels f prepared_def
            melt_frame [OF lens, simplified] melted_rows_prepared period_columns_def
            del: long_frame_def)
    qed
  qed
qed

lemma id_values_single:
  "filter (\<lambda>(l, vs). is_id_label l) (retained df) = [(h, ids)] \<Longrightarrow> id_values df = ids"
  by (simp add: id_values_def)

lemma cleaning_cases:
  assumes "rectangular df"
  shows "cleaning_dataframe L df =
     (if df = [] then Inl IndexError
      else if list_ex (\<lambda>(l, vs). l = Str ''HICP'') (retained df) then Inl ValueError
      else case filter (\<lambda>(l, vs). is_id_label l) (retained df) of
          [] \<Rightarrow> Inl KeyError
        | [(h, ids)] \<Rightarrow> converted_rows L (melted_rows ids (period_columns df))
        | _ # _ # _ \<Rightarrow> Inl ValueError)"
  unfolding cleaning_dataframe_def reshape_cases [OF assms]
  by (auto simp: enforce_long_frame split: list.splits)

lemma converted_rows_at_sheet:
  "converted_rows L (melted_rows (id_values df) (period_columns df)) =
     (case date_failure L df of
        Some e \<Rightarrow> Inl e
      | None \<Rightarrow>
          Inr (long_frame (filter complete_row
            (map (observation L (label_format L df))
               (melted_rows (id_values df) (period_columns df))))))"
  unfolding converted_rows_def date_failure_def label_format_def period_labels_def ..

lemma cleaning_success:
  assumes "rectangular df" and "cleaning_dataframe L df = Inr out"
  shows "out = long_frame (filter complete_row
           (map (observation L (label_format L df))
              (melted_rows (id_values df) (period_columns df))))"
    and "date_failure L df = None"
    and "\<exists>h. filter (\<lambda>(l, vs). is_id_label l) (retained df) = [(h, id_values df)]"
    and "df \<noteq> []"
proof -
  from assms(2) obtain h ids
    where f: "filter (\<lambda>(l, vs). is_id_label l) (retained df) = [(h, ids)]"
      and c: "converted_rows L (melted_rows ids (period_columns df)) = Inr out"
      and ne: "df \<noteq> []"
    unfolding cleaning_cases [OF assms(1)]
    by (auto split: if_splits list.splits)
  have i: "id_values df = ids" by (rule id_values_single [OF f])
  from c have c': "converted_rows L (melted_rows (id_values df) (period_columns df)) = Inr out"
    by (simp add: i)
  show "date_failure L df = None"
    using c' unfolding converted_rows_at_sheet by (simp split: option.splits)
  then show "out = long_frame (filter complete_row
           (map (observation L (label_format L df))
              (melted_rows (id_values df) (period_columns df))))"
    using c' unfolding converted_rows_at_sheet by simp
  show "\<exists>h. filter (\<lambda>(l, vs). is_id_label l) (retained df) = [(h, id_values df)]"
    using f i by blast
  show "df \<noteq> []" by (rule ne)
qed

lemma first_failure_None:
  "(first_failure conv cs = None) = (\<forall>c \<in> set cs. \<forall>e. conv c \<noteq> Fails e)"
  by (induction cs) (auto split: parsed.splits)

lemma convert_null:
  "(convert_cell L fmt c = Null) = (to_datetime_cell L c = Null)"
  by (cases fmt; cases c)
     (auto simp: convert_cell_def strptime_cell_def to_datetime_cell_def split: sum.splits)

lemma upt_2: "[0..<2] = [0, 1]"
  by (simp add: upt_conv_Cons)

lemma upt_3: "[0..<3] = [0, 1, 2]"
  by (simp add: upt_conv_Cons)

lemma upt_4: "[0..<4] = [0, 1, 2, 3]"
  by (simp add: upt_conv_Cons)

lemma upt_5: "[0..<5] = [0, 1, 2, 3, 4]"
  by (simp add: upt_conv_Cons)

lemma retained_2: "retained [a, b] = [a, b]"
  by (simp add: retained_def selected_positions_def upt_2)

lemma retained_3: "retained [a, b, c] = [a, b]"
  by (simp add: retained_def selected_positions_def upt_3)

lemma retained_4: "retained [a, b, c, d] = [a, b, d]"
  by (simp add: retained_def selected_positions_def upt_4)

lemma retained_5: "retained [a, b, c, d, e] = [a, b, d]"
  by (simp add: retained_def selected_positions_def upt_5)

lemma retained_Cons: "retained (a # rest) = a # tl (retained (a # rest))"
  by (simp add: retained_def selected_positions_def)

lemma astype_str_notna: "astype_str L c \<noteq> NaN"
  by (cases c) (simp_all add: astype_str_def)

lemma to_numeric_kinds: "to_numeric_cell L v = NaN \<or> is_number (to_numeric_cell L v)"
  by (cases v) (simp_all add: to_numeric_cell_def is_number_def split: option.splits)

lemma datetime_kinds: "datetime_cell L fmt l = NaN \<or> is_stamp (datetime_cell L fmt l)"
  by (simp add: datetime_cell_def is_stamp_def split: parsed.splits)

lemma astype_str_text: "is_text (astype_str L c)"
  by (cases c) (simp_all add: astype_str_def is_text_def)

lemma complete_observation:
  assumes "\<forall>e. convert_cell L fmt (fst (snd r)) \<noteq> Fails e"
  shows "complete_row (observation L fmt r) = (\<not> dropped L r)"
proof -
  obtain c l v where r: "r = (c, l, v)" by (cases r)
  have "(datetime_cell L fmt l = NaN) = (convert_cell L fmt l = Null)"
    using assms by (cases "convert_cell L fmt l") (simp_all add: datetime_cell_def r)
  then have d: "(datetime_cell L fmt l = NaN) = no_date L l"
    by (simp add: convert_null no_date_def)
  show ?thesis
    by (auto simp: r complete_row_def observation_def dropped_def astype_str_notna d
        coercion_fails_def is_placeholder_def normalise_def to_numeric_cell_def)
qed

lemma complete_kinds:
  assumes "complete_row (observation L fmt r)"
  shows "is_text (fst (observation L fmt r))"
    and "is_stamp (fst (snd (observation L fmt r)))"
    and "is_number (snd (snd (observation L fmt r)))"
proof -
  obtain c l v where r: "r = (c, l, v)" by (cases r)
  show "is_text (fst (observation L fmt r))"
    by (simp add: r observation_def astype_str_text)
  show "is_stamp (fst (snd (observation L fmt r)))"
    using assms datetime_kinds [of L fmt l] by (simp add: r observation_def complete_row_def)
  show "is_number (snd (snd (observation L fmt r)))"
    using assms to_numeric_kinds [of L "normalise v"]
    by (simp add: r observation_def complete_row_def)
qed

lemma get_column_long_frame:
  "get_column ''Country'' (long_frame rows) = map fst rows"
  "get_column ''Date'' (long_frame rows) = map (\<lambda>r. fst (snd r)) rows"
  "get_column ''HICP'' (long_frame rows) = map (\<lambda>r. snd (snd r)) rows"
  by (simp_all add: get_column_def long_frame_def columns_labelled_def)

lemma scenario_rectangular: "rectangular scenario_sheet"
  by (simp add: rectangular_def scenario_sheet_def nrows_def)

lemma scenario_retained:
  "retained scenario_sheet =
     [(Str ''TIME'', [Str ''FR'', Str ''DE'']),
      (Str ''2020-01'', [Num (Finite 100), Str ''d'']),
      (Str ''2020-02'', [Str '':'', Num (Finite 99.5)])]"
  by (simp add: scenario_sheet_def retained_5)

lemma scenario_melted:
  "melted_rows [Str ''FR'', Str ''DE''] (period_columns scenario_sheet) =
     [(Str ''FR'', Str ''2020-01'', Num (Finite 100)), (Str ''DE'', Str ''2020-01'', Str ''d''),
      (Str ''FR'', Str ''2020-02'', Str '':''), (Str ''DE'', Str ''2020-02'', Num (Finite 99.5))]"
  by (simp add: melted_rows_def period_columns_def scenario_retained is_id_label_def)

lemma scen_eval:
  assumes p1: "parse_datetime L ''2020-01'' = Parsed (Timestamp 2020 1 1)"
      and p2: "parse_datetime L ''2020-02'' = Parsed (Timestamp 2020 2 1)"
      and f1: "\<And>f. guess_format L ''2020-01'' = Some f \<Longrightarrow>
                 strptime L f ''2020-01'' = Inr (Timestamp 2020 1 1)"
      and f2: "\<And>f. guess_format L ''2020-01'' = Some f \<Longrightarrow>
                 strptime L f ''2020-02'' = Inr (Timestamp 2020 2 1)"
  shows "cleaning_dataframe L scenario_sheet =
     Inr [(Str ''Country'', [Str ''FR'', Str ''DE'']),
          (Str ''Date'', [Stamp (Timestamp 2020 1 1), Stamp (Timestamp 2020 2 1)]),
          (Str ''HICP'', [Num (Finite 100), Num (Finite 99.5)])]"
proof -
  let ?labels = "[Str ''2020-01'', Str ''2020-01'', Str ''2020-02'', Str ''2020-02'']"
  have ne: "scenario_sheet \<noteq> []" by (simp add: scenario_sheet_def)
  have c: "cleaning_dataframe L scenario_sheet =
      converted_rows L (melted_rows [Str ''FR'', Str ''DE''] (period_columns scenario_sheet))"
    unfolding cleaning_cases [OF scenario_rectangular]
    using ne by (simp add: scenario_retained is_id_label_def)
  have sf: "series_format L ?labels = guess_format L ''2020-01''"
    by (simp add: series_format_def first_non_null_def to_datetime_cell_def p1)
  have conv: "convert_cell L (guess_format L ''2020-01'') (Str ''2020-01'') = Parsed (Timestamp 2020 1 1)"
    "convert_cell L (guess_format L ''2020-01'') (Str ''2020-02'') = Parsed (Timestamp 2020 2 1)"
    using p1 p2 f1 f2
    by (cases "guess_format L ''2020-01''";
        simp add: convert_cell_def to_datetime_cell_def strptime_cell_def)+
  show ?thesis
    unfolding c scenario_melted converted_rows_def
    by (simp add: labels_of_def sf conv observation_def datetime_cell_def normalise_def
        astype_str_def to_numeric_cell_def complete_row_def long_frame_def)
qed

lemma scenario_at_library:
  "cleaning_dataframe scenario_library scenario_sheet = Inr cleaned_scenario"
  unfolding cleaned_scenario_def
  by (rule scen_eval) (simp_all add: scenario_library_def)

lemma first_header_structure:
  assumes per: "\<not> list_ex (\<lambda>(l, vs). is_id_label l \<or> l = Str ''HICP'')
                   (tl (retained ((h, ids) # rest)))"
      and h: "h \<noteq> Str ''HICP''"
  shows "\<not> list_ex (\<lambda>(l, vs). l = Str ''HICP'') (retained ((h, ids) # rest))"
    and "filter (\<lambda>(l, vs). is_id_label l) (retained ((h, ids) # rest)) =
           (if is_id_label h then [(h, ids)] else [])"
    and "is_id_label h \<Longrightarrow> period_columns ((h, ids) # rest) = tl (retained ((h, ids) # rest))"
    and "is_id_label h \<Longrightarrow> id_values ((h, ids) # rest) = ids"
proof -
  let ?df = "(h, ids) # rest"
  let ?P = "tl (retained ?df)"
  have R: "retained ?df = (h, ids) # ?P" by (rule retained_Cons)
  have none: "filter (\<lambda>(l, vs). is_id_label l) ?P = []"
    using per by (auto simp: list_ex_iff filter_empty_conv)
  have all: "filter (\<lambda>(l, vs). \<not> is_id_label l) ?P = ?P"
    using per by (auto simp: list_ex_iff filter_id_conv)
  show "\<not> list_ex (\<lambda>(l, vs). l = Str ''HICP'') (retained ?df)"
    using per h by (subst R) (auto simp: list_ex_iff)
  show idf: "filter (\<lambda>(l, vs). is_id_label l) (retained ?df) =
           (if is_id_label h then [(h, ids)] else [])"
    by (subst R) (simp add: none)
  show "is_id_label h \<Longrightarrow> period_columns ?df = ?P"
    unfolding period_columns_def by (subst R) (simp add: all)
  show "is_id_label h \<Longrightarrow> id_values ?df = ids"
    by (simp add: id_values_def idf)
qed

lemma first_header_cases:
  assumes rect: "rectangular ((h, ids) # rest)"
      and per: "\<not> list_ex (\<lambda>(l, vs). is_id_label l \<or> l = Str ''HICP'')
                   (tl (retained ((h, ids) # rest)))"
      and h: "h \<noteq> Str ''HICP''"
  shows "cleaning_dataframe L ((h, ids) # rest) =
        (if is_id_label h
         then converted_rows L (melted_rows ids (tl (retained ((h, ids) # rest))))
         else Inl KeyError)"
    and "reshape ((h, ids) # rest) =
        (if is_id_label h
         then Inr (long_frame
                (map (\<lambda>r. (normalise (fst r), fst (snd r), normalise (snd (snd r))))
                   (melted_rows ids (tl (retained ((h, ids) # rest))))))
         else Inl KeyError)"
proof -
  note st = first_header_structure [OF per h]
  show "cleaning_dataframe L ((h, ids) # rest) =
        (if is_id_label h
         then converted_rows L (melted_rows ids (tl (retained ((h, ids) # rest))))
         else Inl KeyError)"
    unfolding cleaning_cases [OF rect]
    using st(1) st(3) by (simp add: st(2))
  show "reshape ((h, ids) # rest) =
        (if is_id_label h
         then Inr (long_frame
                (map (\<lambda>r. (normalise (fst r), fst (snd r), normalise (snd (snd r))))
                   (melted_rows ids (tl (retained ((h, ids) # rest))))))
         else Inl KeyError)"
    unfolding reshape_cases [OF rect]
    using st(1) st(3) by (simp add: st(2))
qed

lemma two_column_cleaning:
  assumes "length ids = length vs" and "l \<noteq> Str ''HICP''" and "\<not> is_id_label l"
  shows "cleaning_dataframe L [(h, ids), (l, vs)] =
     (if h = Str ''HICP'' then Inl ValueError
      else if \<not> is_id_label h then Inl KeyError
      else converted_rows L (map (\<lambda>(c, v). (c, l, v)) (zip ids vs)))"
proof -
  have rect: "rectangular [(h, ids), (l, vs)]"
    using assms(1) by (simp add: rectangular_def nrows_def)
  show ?thesis
    unfolding cleaning_cases [OF rect]
    using assms(2,3)
    by (simp add: retained_2 period_columns_def melted_rows_def is_id_label_def)
qed

lemmas evaluation =
  converted_rows_def labels_of_def series_format_def first_non_null_def convert_cell_def
  to_datetime_cell_def strptime_cell_def datetime_cell_def observation_def normalise_def
  complete_row_def astype_str_def to_numeric_cell_def is_id_label_def scenario_library_def

lemma sheet_evaluations:
  "cleaning_dataframe scenario_library blank_sheet =
     Inr (long_frame [(Str ''DE'', Stamp (Timestamp 2020 1 1), Num (Finite 99.5))])"
  "cleaning_dataframe scenario_library infinite_sheet =
     Inr (long_frame [(Str ''FR'', Stamp (Timestamp 2020 1 1), Num PosInf),
                      (Str ''DE'', Stamp (Timestamp 2020 1 1), Num PosInf)])"
  "cleaning_dataframe scenario_library geo_sheet = Inl KeyError"
  "cleaning_dataframe scenario_library unparsed_sheet = Inl DateParseError"
  "cleaning_dataframe scenario_library text_sheet =
     Inr (long_frame [(Str ''DE'', Stamp (Timestamp 2020 2 1), Num (Finite 99.5))])"
  "cleaning_dataframe scenario_library rowless_sheet = Inr (long_frame [])"
  "cleaning_dataframe scenario_library null_label_sheet = Inr (long_frame [])"
  by (simp_all add: blank_sheet_def infinite_sheet_def geo_sheet_def unparsed_sheet_def
      text_sheet_def rowless_sheet_def null_label_sheet_def two_column_cleaning evaluation)

lemma four_column_cleaning:
  assumes "is_id_label h" and "\<not> is_id_label l1" and "\<not> is_id_label l2"
      and "l1 \<noteq> Str ''HICP''" and "l2 \<noteq> Str ''HICP''"
  shows "cleaning_dataframe L [(h, [c]), (l1, [v1]), (a, [x]), (l2, [v2])] =
           converted_rows L [(c, l1, v1), (c, l2, v2)]"
    and "reshape [(h, [c]), (l1, [v1]), (a, [x]), (l2, [v2])] =
           Inr (long_frame [(normalise c, l1, normalise v1), (normalise c, l2, normalise v2)])"
proof -
  have rect: "rectangular [(h, [c]), (l1, [v1]), (a, [x]), (l2, [v2])]"
    by (simp add: rectangular_def nrows_def)
  have per: "\<not> list_ex (\<lambda>(l, vs). is_id_label l \<or> l = Str ''HICP'')
                   (tl (retained [(h, [c]), (l1, [v1]), (a, [x]), (l2, [v2])]))"
    using assms by (simp add: retained_4)
  have h: "h \<noteq> Str ''HICP''" using assms(1) by (auto simp: is_id_label_def)
  show "cleaning_dataframe L [(h, [c]), (l1, [v1]), (a, [x]), (l2, [v2])] =
           converted_rows L [(c, l1, v1), (c, l2, v2)]"
    unfolding first_header_cases(1) [OF rect per h]
    using assms(1) by (simp add: retained_4 melted_rows_def)
  show "reshape [(h, [c]), (l1, [v1]), (a, [x]), (l2, [v2])] =
           Inr (long_frame [(normalise c, l1, normalise v1), (normalise c, l2, normalise v2)])"
    unfolding first_header_cases(2) [OF rect per h]
    using assms(1) by (simp add: retained_4 melted_rows_def)
qed

lemma format_evaluations:
  "cleaning_dataframe scenario_library mixed_sheet = Inl ValueError"
  "cleaning_dataframe scenario_library late_label_sheet = Inl ValueError"
  by (simp_all add: mixed_sheet_def late_label_sheet_def four_column_cleaning evaluation)

text \<open>
  Claim C1, as amended. When the cleaning of a sheet returns, its rows are the raw
  observations (in melt order, converted) except exactly those whose value cell was one
  of the placeholders \<open>:\<close> and \<open>d\<close>, whose value cell was already missing, whose period
  label is a null label that gives no date, or whose value \<open>to_numeric\<close> turns into the
  missing marker: no other row is dropped and none of these is kept.
\<close>

theorem cleaning_drops_exactly:
  assumes "rectangular df" and "cleaning_dataframe L df = Inr out"
  shows "out = long_frame (map (observation L (label_format L df))
           (filter (\<lambda>r. \<not> dropped L r) (melted_rows (id_values df) (period_columns df))))"
proof -
  let ?T = "melted_rows (id_values df) (period_columns df)"
  note cs = cleaning_success [OF assms]
  have nf: "\<forall>r \<in> set ?T. \<forall>e. convert_cell L (label_format L df) (fst (snd r)) \<noteq> Fails e"
    using cs(2) unfolding date_failure_def first_failure_None period_labels_def labels_of_def
    by auto
  have "filter (\<lambda>r. complete_row (observation L (label_format L df) r)) ?T =
        filter (\<lambda>r. \<not> dropped L r) ?T"
    by (rule filter_cong [OF refl]) (use nf complete_observation in blast)
  then show ?thesis
    unfolding cs(1) by (simp add: filter_map comp_def)
qed

text \<open>The statement at a sheet with a blank cell and a valid cell.\<close>

theorem cleaning_drops_exactly_witness:
  "rectangular blank_sheet
   \<and> cleaning_dataframe scenario_library blank_sheet =
       Inr (long_frame [(Str ''DE'', Stamp (Timestamp 2020 1 1), Num (Finite 99.5))])
   \<and> long_frame [(Str ''DE'', Stamp (Timestamp 2020 1 1), Num (Finite 99.5))] =
       long_frame (map (observation scenario_library (label_format scenario_library blank_sheet))
         (filter (\<lambda>r. \<not> dropped scenario_library r)
           (melted_rows (id_values blank_sheet) (period_columns blank_sheet))))"
proof -
  have r: "rectangular blank_sheet"
    by (simp add: rectangular_def blank_sheet_def nrows_def)
  from cleaning_drops_exactly [OF r sheet_evaluations(1)] r sheet_evaluations(1)
  show ?thesis by simp
qed

text \<open>
  Claim C1 as stated fails: the row of FR holds a blank cell, which is no placeholder, its
  label 2020-01 is a date and \<open>to_numeric\<close> had nothing to coerce, yet the row is dropped.
\<close>

theorem blank_cell_dropped:
  "cleaning_dataframe scenario_library blank_sheet =
     Inr (long_frame [(Str ''DE'', Stamp (Timestamp 2020 1 1), Num (Finite 99.5))])
   \<and> melted_rows (id_values blank_sheet) (period_columns blank_sheet) =
       [(Str ''FR'', Str ''2020-01'', NaN), (Str ''DE'', Str ''2020-01'', Num (Finite 99.5))]
   \<and> \<not> is_placeholder NaN
   \<and> \<not> no_date scenario_library (Str ''2020-01'')
   \<and> \<not> coercion_fails scenario_library NaN"
  by (simp add: sheet_evaluations(1))
     (simp add: blank_sheet_def id_values_def period_columns_def retained_2 is_id_label_def
      melted_rows_def is_placeholder_def no_date_def coercion_fails_def
      to_datetime_cell_def scenario_library_def)

text \<open>
  Claim C2, as amended. Every cleaned table has the three columns Country, Date and HICP
  of equal length, no cell of it is missing, every Country is a text, every Date a
  timestamp and every HICP a float (which may be an infinity).
\<close>

theorem cleaned_fields_populated:
  assumes "rectangular df" and "cleaning_dataframe L df = Inr out"
  shows "map fst out = [Str ''Country'', Str ''Date'', Str ''HICP'']
       \<and> list_all is_text (get_column ''Country'' out)
       \<and> list_all is_stamp (get_column ''Date'' out)
       \<and> list_all is_number (get_column ''HICP'' out)
       \<and> list_all (\<lambda>(l, vs). NaN \<notin> set vs) out
       \<and> rectangular out"
proof -
  let ?rows = "filter complete_row (map (observation L (label_format L df))
                 (melted_rows (id_values df) (period_columns df)))"
  have out: "out = long_frame ?rows" by (rule cleaning_success(1) [OF assms])
  have k: "\<forall>r \<in> set ?rows. is_text (fst r) \<and> is_stamp (fst (snd r)) \<and> is_number (snd (snd r))"
  proof (intro ballI)
    fix r assume "r \<in> set ?rows"
    then obtain t where "r = observation L (label_format L df) t" and "complete_row r" by auto
    then show "is_text (fst r) \<and> is_stamp (fst (snd r)) \<and> is_number (snd (snd r))"
      using complete_kinds [of L "label_format L df" t] by simp
  qed
  have n: "\<forall>r \<in> set ?rows. fst r \<noteq> NaN \<and> fst (snd r) \<noteq> NaN \<and> snd (snd r) \<noteq> NaN"
    by (auto simp: complete_row_def)
  have 1: "map fst out = [Str ''Country'', Str ''Date'', Str ''HICP'']"
    by (simp add: out long_frame_def)
  have 2: "list_all is_text (get_column ''Country'' out)"
    unfolding out get_column_long_frame list_all_iff using k by auto
  have 3: "list_all is_stamp (get_column ''Date'' out)"
    unfolding out get_column_long_frame list_all_iff using k by auto
  have 4: "list_all is_number (get_column ''HICP'' out)"
    unfolding out get_column_long_frame list_all_iff using k by auto
  have 5: "list_all (\<lambda>(l, vs). NaN \<notin> set vs) out"
    unfolding out long_frame_def using n by (auto simp: image_iff)
  have 6: "rectangular out"
    by (simp add: out long_frame_def rectangular_def nrows_def)
  from 1 2 3 4 5 6 show ?thesis by blast
qed

text \<open>The statement at the sheet of the scenario.\<close>

theorem cleaned_fields_populated_witness:
  "rectangular scenario_sheet
   \<and> cleaning_dataframe scenario_library scenario_sheet = Inr cleaned_scenario
   \<and> map fst cleaned_scenario = [Str ''Country'', Str ''Date'', Str ''HICP'']
   \<and> list_all is_text (get_column ''Country'' cleaned_scenario)
   \<and> list_all is_stamp (get_column ''Date'' cleaned_scenario)
   \<and> list_all is_number (get_column ''HICP'' cleaned_scenario)"
  using cleaned_fields_populated [OF scenario_rectangular scenario_at_library]
    scenario_rectangular scenario_at_library
  by simp

text \<open>
  Claim C2 as stated fails: an infinite float, or the text \<open>inf\<close>, is not missing, so
  \<open>dropna\<close> keeps the row and its HICP is not finite.
\<close>

theorem infinite_value_survives:
  "cleaning_dataframe scenario_library infinite_sheet =
     Inr (long_frame [(Str ''FR'', Stamp (Timestamp 2020 1 1), Num PosInf),
                      (Str ''DE'', Stamp (Timestamp 2020 1 1), Num PosInf)])
   \<and> get_column ''HICP'' (long_frame [(Str ''FR'', Stamp (Timestamp 2020 1 1), Num PosInf),
                      (Str ''DE'', Stamp (Timestamp 2020 1 1), Num PosInf)]) = [Num PosInf, Num PosInf]
   \<and> \<not> finite_value (Num PosInf)"
  by (simp add: sheet_evaluations(2) get_column_long_frame finite_value_def)

text \<open>
  Claim C3, as amended. Only the header TIME is renamed to Country; any other first
  header stays as it is. For a sheet whose first header is not HICP and whose retained
  period columns are labelled neither TIME, Country nor HICP: when the first header is
  TIME or Country, the first column is the identifier column, the reshape succeeds and
  the cleaning returns unless the one conversion of the Date column raises, in which
  case it raises that exception; for any other first header it raises KeyError.
\<close>

theorem rename_only_time:
  assumes "rectangular ((h, ids) # rest)"
      and "\<not> list_ex (\<lambda>(l, vs). is_id_label l \<or> l = Str ''HICP'') (tl (retained ((h, ids) # rest)))"
      and "h \<noteq> Str ''HICP''"
  shows "fst (hd (rename_columns [(''TIME'', ''Country'')] ((h, ids) # rest))) =
           (if h = Str ''TIME'' then Str ''Country'' else h)
       \<and> cleaning_dataframe L ((h, ids) # rest) =
           (if h = Str ''TIME'' \<or> h = Str ''Country''
            then (case date_failure L ((h, ids) # rest) of
                    Some e \<Rightarrow> Inl e
                  | None \<Rightarrow>
                      Inr (long_frame (filter complete_row
                        (map (observation L (label_format L ((h, ids) # rest)))
                           (melted_rows ids (tl (retained ((h, ids) # rest))))))))
            else Inl KeyError)
       \<and> reshape ((h, ids) # rest) =
           (if h = Str ''TIME'' \<or> h = Str ''Country''
            then Inr (long_frame
                   (map (\<lambda>r. (normalise (fst r), fst (snd r), normalise (snd (snd r))))
                      (melted_rows ids (tl (retained ((h, ids) # rest))))))
            else Inl KeyError)
       \<and> period_labels ((h, ids) # rest) =
           (if h = Str ''TIME'' \<or> h = Str ''Country''
            then labels_of (melted_rows ids (tl (retained ((h, ids) # rest))))
            else [])"
proof -
  let ?df = "(h, ids) # rest"
  note st = first_header_structure [OF assms(2,3)]
  note fh = first_header_cases [OF assms]
  have 1: "fst (hd (rename_columns [(''TIME'', ''Country'')] ?df)) =
           (if h = Str ''TIME'' then Str ''Country'' else h)"
    by (simp add: rename_columns_def rename_time)
  have pl: "is_id_label h \<Longrightarrow>
      period_labels ?df = labels_of (melted_rows ids (tl (retained ?df)))"
    by (simp add: period_labels_def st(3) st(4))
  have pn: "\<not> is_id_label h \<Longrightarrow> period_labels ?df = []"
    by (simp add: period_labels_def id_values_def st(2) melted_rows_def labels_of_def)
  have cr: "is_id_label h \<Longrightarrow>
      converted_rows L (melted_rows ids (tl (retained ?df))) =
        (case date_failure L ?df of
           Some e \<Rightarrow> Inl e
         | None \<Rightarrow>
             Inr (long_frame (filter complete_row
               (map (observation L (label_format L ?df)) (melted_rows ids (tl (retained ?df)))))))"
  proof -
    assume i: "is_id_label h"
    show ?thesis
      using converted_rows_at_sheet [of L ?df] unfolding st(3) [OF i] st(4) [OF i] .
  qed
  have 2: "cleaning_dataframe L ?df =
           (if h = Str ''TIME'' \<or> h = Str ''Country''
            then (case date_failure L ?df of
                    Some e \<Rightarrow> Inl e
                  | None \<Rightarrow>
                      Inr (long_frame (filter complete_row
                        (map (observation L (label_format L ?df))
                           (melted_rows ids (tl (retained ?df)))))))
            else Inl KeyError)"
    using fh(1) [of L] cr by (auto simp: is_id_label_def)
  have 3: "reshape ?df =
           (if h = Str ''TIME'' \<or> h = Str ''Country''
            then Inr (long_frame
                   (map (\<lambda>r. (normalise (fst r), fst (snd r), normalise (snd (snd r))))
                      (melted_rows ids (tl (retained ?df)))))
            else Inl KeyError)"
    using fh(2) by (simp add: is_id_label_def)
  have 4: "period_labels ?df =
           (if h = Str ''TIME'' \<or> h = Str ''Country''
            then labels_of (melted_rows ids (tl (retained ?df)))
            else [])"
    using pl pn by (auto simp: is_id_label_def)
  from 1 2 3 4 show ?thesis by blast
qed

text \<open>The statement at the sheet of the scenario, whose first header is TIME.\<close>

theorem rename_only_time_witness:
  "rectangular scenario_sheet
   \<and> fst (hd (rename_columns [(''TIME'', ''Country'')] scenario_sheet)) = Str ''Country''
   \<and> cleaning_dataframe scenario_library scenario_sheet = Inr cleaned_scenario"
proof -
  have p: "\<not> list_ex (\<lambda>(l, vs). is_id_label l \<or> l = Str ''HICP'') (tl (retained scenario_sheet))"
    by (simp add: scenario_retained is_id_label_def)
  have h: "Str ''TIME'' \<noteq> Str ''HICP''" by simp
  from rename_only_time [OF scenario_rectangular [unfolded scenario_sheet_def]
      p [unfolded scenario_sheet_def] h, of scenario_library]
  show ?thesis
    using scenario_rectangular scenario_at_library
    by (simp add: scenario_sheet_def)
qed

text \<open>
  Claim C3 as stated fails: a first column headed GEO keeps its header and the melt
  raises KeyError.
\<close>

theorem other_header_raises:
  "cleaning_dataframe scenario_library geo_sheet = Inl KeyError
   \<and> map fst (rename_columns [(''TIME'', ''Country'')] geo_sheet) = [Str ''GEO'', Str ''2020-01'']"
  by (simp add: sheet_evaluations(3))
     (simp add: geo_sheet_def rename_columns_def rename_label_def)

text \<open>
  Claim C4. With a library that reads 2020-01 and 2020-02 as the first days of these
  months, on their own and under the format guessed from 2020-01 when there is one, the
  sheet of the scenario is cleaned to exactly the two rows (FR, 2020-01-01, 100.0) and
  (DE, 2020-02-01, 99.5).
\<close>

theorem scenario_cleaned:
  assumes "parse_datetime L ''2020-01'' = Parsed (Timestamp 2020 1 1)"
      and "parse_datetime L ''2020-02'' = Parsed (Timestamp 2020 2 1)"
      and "\<And>f. guess_format L ''2020-01'' = Some f \<Longrightarrow>
             strptime L f ''2020-01'' = Inr (Timestamp 2020 1 1)"
      and "\<And>f. guess_format L ''2020-01'' = Some f \<Longrightarrow>
             strptime L f ''2020-02'' = Inr (Timestamp 2020 2 1)"
  shows "cleaning_dataframe L
           [(Str ''TIME'', [Str ''FR'', Str ''DE'']),
            (Str ''2020-01'', [Num (Finite 100), Str ''d'']),
            (Str ''mergeArtifact'', [Str ''x'', Str ''x'']),
            (Str ''2020-02'', [Str '':'', Num (Finite 99.5)]),
            (Str ''mergeArtifact'', [Str ''y'', Str ''y''])] =
         Inr [(Str ''Country'', [Str ''FR'', Str ''DE'']),
              (Str ''Date'', [Stamp (Timestamp 2020 1 1), Stamp (Timestamp 2020 2 1)]),
              (Str ''HICP'', [Num (Finite 100), Num (Finite 99.5)])]"
  using scen_eval [OF assms] by (simp add: scenario_sheet_def)

text \<open>The statement for the library of the examples, which guesses the format \<open>%Y-%m\<close>.\<close>

theorem scenario_cleaned_witness:
  "parse_datetime scenario_library ''2020-01'' = Parsed (Timestamp 2020 1 1)
   \<and> parse_datetime scenario_library ''2020-02'' = Parsed (Timestamp 2020 2 1)
   \<and> guess_format scenario_library ''2020-01'' = Some ''%Y-%m''
   \<and> strptime scenario_library ''%Y-%m'' ''2020-01'' = Inr (Timestamp 2020 1 1)
   \<and> strptime scenario_library ''%Y-%m'' ''2020-02'' = Inr (Timestamp 2020 2 1)
   \<and> cleaning_dataframe scenario_library scenario_sheet = Inr cleaned_scenario"
proof -
  have a: "parse_datetime scenario_library ''2020-01'' = Parsed (Timestamp 2020 1 1)"
    and b: "parse_datetime scenario_library ''2020-02'' = Parsed (Timestamp 2020 2 1)"
    and g: "guess_format scenario_library ''2020-01'' = Some ''%Y-%m''"
    and c: "strptime scenario_library ''%Y-%m'' ''2020-01'' = Inr (Timestamp 2020 1 1)"
    and d: "strptime scenario_library ''%Y-%m'' ''2020-02'' = Inr (Timestamp 2020 2 1)"
    by (simp_all add: scenario_library_def)
  have c': "\<And>f. guess_format scenario_library ''2020-01'' = Some f \<Longrightarrow>
             strptime scenario_library f ''2020-01'' = Inr (Timestamp 2020 1 1)"
    and d': "\<And>f. guess_format scenario_library ''2020-01'' = Some f \<Longrightarrow>
             strptime scenario_library f ''2020-02'' = Inr (Timestamp 2020 2 1)"
    using c d g by auto
  from scenario_cleaned [OF a b c' d'] a b g c d show ?thesis
    by (simp add: scenario_sheet_def cleaned_scenario_def)
qed

lemma rerun_cases:
  "cleaning_dataframe L (long_frame rows) =
     converted_rows L (map (\<lambda>r. (fst r, Str ''Date'', fst (snd r))) rows)"
proof -
  have rect: "rectangular (long_frame rows)"
    by (simp add: long_frame_def rectangular_def nrows_def)
  have z: "map (\<lambda>(c, v). (c, Str ''Date'', v)) (zip (map fst rows) (map (\<lambda>r. fst (snd r)) rows)) =
        map (\<lambda>r. (fst r, Str ''Date'', fst (snd r))) rows"
    by (induction rows) auto
  show ?thesis
    unfolding cleaning_cases [OF rect]
    by (simp add: long_frame_def retained_3 period_columns_def is_id_label_def melted_rows_def z)
qed

lemma rerun_failure:
  assumes "parse_datetime L ''Date'' = Fails e" and "rows \<noteq> []"
  shows "converted_rows L (map (\<lambda>r. (fst r, Str ''Date'', fst (snd r))) rows) = Inl e"
proof -
  obtain r rest where rows: "rows = r # rest" using assms(2) by (cases rows) auto
  show ?thesis
    using assms(1)
    by (simp add: rows converted_rows_def labels_of_def series_format_def first_non_null_def
        to_datetime_cell_def convert_cell_def)
qed

text \<open>
  Claim C5, as amended. On a table of the cleaner's own output shape (the columns
  Country, Date, HICP) the cleaner discards the third column as a merge artifact and
  melts the Date column under the label Date, which is no date: with at least one row it
  raises the date error, and only the empty table passes through unchanged.
\<close>

theorem rerun_on_cleaned_shape:
  assumes "parse_datetime L ''Date'' = Fails DateParseError"
  shows "cleaning_dataframe L (long_frame rows) =
           (if rows = [] then Inr (long_frame []) else Inl DateParseError)"
proof (cases "rows = []")
  case True
  then show ?thesis
    by (simp add: rerun_cases converted_rows_def labels_of_def)
next
  case False
  then show ?thesis
    by (simp add: rerun_cases rerun_failure [OF assms])
qed

text \<open>The statement at a table of one row and at the empty table.\<close>

theorem rerun_on_cleaned_shape_witness:
  "parse_datetime scenario_library ''Date'' = Fails DateParseError
   \<and> cleaning_dataframe scenario_library
        (long_frame [(Str ''FR'', Stamp (Timestamp 2020 1 1), Num (Finite 100))]) = Inl DateParseError
   \<and> cleaning_dataframe scenario_library (long_frame []) = Inr (long_frame [])"
proof -
  have a: "parse_datetime scenario_library ''Date'' = Fails DateParseError"
    by (simp add: scenario_library_def)
  from rerun_on_cleaned_shape [OF a, of "[(Str ''FR'', Stamp (Timestamp 2020 1 1), Num (Finite 100))]"]
    rerun_on_cleaned_shape [OF a, of "[]"] a
  show ?thesis by simp
qed

text \<open>
  Claim C5 as stated fails: cleaning the cleaned scenario again raises instead of
  returning it.
\<close>

theorem rerun_raises:
  "cleaning_dataframe scenario_library scenario_sheet = Inr cleaned_scenario
   \<and> cleaning_dataframe scenario_library cleaned_scenario = Inl DateParseError
   \<and> cleaning_dataframe scenario_library cleaned_scenario \<noteq> Inr cleaned_scenario"
proof -
  have c: "cleaned_scenario =
      long_frame [(Str ''FR'', Stamp (Timestamp 2020 1 1), Num (Finite 100)),
                  (Str ''DE'', Stamp (Timestamp 2020 2 1), Num (Finite 99.5))]"
    by (simp add: cleaned_scenario_def long_frame_def)
  have a: "parse_datetime scenario_library ''Date'' = Fails DateParseError"
    by (simp add: scenario_library_def)
  have "cleaning_dataframe scenario_library cleaned_scenario = Inl DateParseError"
    unfolding c rerun_cases by (rule rerun_failure [OF a]) simp
  then show ?thesis by (simp add: scenario_at_library)
qed

lemma reshape_success:
  assumes "rectangular df" and "reshape df = Inr long"
  shows "long = long_frame (map (\<lambda>r. (normalise (fst r), fst (snd r), normalise (snd (snd r))))
                  (melted_rows (id_values df) (period_columns df)))"
    and "df \<noteq> []"
    and "\<not> list_ex (\<lambda>(l, vs). l = Str ''HICP'') (retained df)"
    and "\<exists>h. filter (\<lambda>(l, vs). is_id_label l) (retained df) = [(h, id_values df)]"
  using assms(2) unfolding reshape_cases [OF assms(1)]
  by (auto simp: id_values_def split: if_splits list.splits)

lemma melted_rows_rowless: "melted_rows [] periods = []"
  by (induction periods) (auto simp: melted_rows_def)

text \<open>
  Claim C9, as amended. Once the sheet is reshaped, the conversion of the Date column
  is one call on the period labels of the observations, and the cleaner raises exactly
  when that call does: when the label of some observation cannot be converted (parsed
  on its own, or read under the format guessed from the first label that is not null),
  and then with that exception. A sheet without rows has no observation and never
  raises, and a null label never raises: it becomes NaT and its observations are
  dropped. The value cells never decide whether the cleaner raises: a non-numeric value
  becomes missing, its observation is dropped, and every HICP returned is a float.
\<close>

theorem type_enforcement_asymmetric:
  assumes "rectangular df" and "reshape df = Inr long"
  shows "get_column ''Date'' long = period_labels df
       \<and> cleaning_dataframe L df =
           (case date_failure L df of
              Some e \<Rightarrow> Inl e
            | None \<Rightarrow>
                Inr (long_frame (filter complete_row
                  (map (observation L (label_format L df))
                     (melted_rows (id_values df) (period_columns df))))))
       \<and> (date_failure L df = None) =
           (\<forall>l \<in> set (period_labels df). \<forall>e. convert_cell L (label_format L df) l \<noteq> Fails e)
       \<and> (\<forall>l \<in> set (period_labels df).
             to_datetime_cell L l = Null \<longrightarrow> convert_cell L (label_format L df) l = Null)
       \<and> (nrows df = 0 \<longrightarrow> period_labels df = [] \<and> date_failure L df = None)
       \<and> list_all (\<lambda>r. is_number (snd (snd r)))
           (filter complete_row (map (observation L (label_format L df))
              (melted_rows (id_values df) (period_columns df))))"
proof -
  let ?T = "melted_rows (id_values df) (period_columns df)"
  note rs = reshape_success [OF assms]
  obtain h where f: "filter (\<lambda>(l, vs). is_id_label l) (retained df) = [(h, id_values df)]"
    using rs(4) by blast
  have 1: "get_column ''Date'' long = period_labels df"
    unfolding rs(1) period_labels_def
    by (simp add: get_column_long_frame labels_of_def comp_def)
  have 2: "cleaning_dataframe L df =
           (case date_failure L df of
              Some e \<Rightarrow> Inl e
            | None \<Rightarrow>
                Inr (long_frame (filter complete_row
                  (map (observation L (label_format L df)) ?T))))"
    unfolding cleaning_cases [OF assms(1)]
    using rs(2) rs(3) by (simp add: f converted_rows_at_sheet)
  have 3: "(date_failure L df = None) =
           (\<forall>l \<in> set (period_labels df). \<forall>e. convert_cell L (label_format L df) l \<noteq> Fails e)"
    unfolding date_failure_def by (rule first_failure_None)
  have 4: "\<forall>l \<in> set (period_labels df).
             to_datetime_cell L l = Null \<longrightarrow> convert_cell L (label_format L df) l = Null"
    by (simp add: convert_null)
  have "(h, id_values df) \<in> set (filter (\<lambda>(l, vs). is_id_label l) (retained df))"
    unfolding f by simp
  then have "(h, id_values df) \<in> set (retained df)" by simp
  then have idlen: "length (id_values df) = nrows df"
    using retained_lengths [OF assms(1) rs(2)] by blast
  have 5: "nrows df = 0 \<longrightarrow> period_labels df = [] \<and> date_failure L df = None"
    using idlen
    by (auto simp: period_labels_def melted_rows_rowless labels_of_def date_failure_def)
  have 6: "list_all (\<lambda>r. is_number (snd (snd r)))
             (filter complete_row (map (observation L (label_format L df)) ?T))"
    unfolding list_all_iff
  proof (intro ballI)
    fix r assume "r \<in> set (filter complete_row (map (observation L (label_format L df)) ?T))"
    then obtain t where "r = observation L (label_format L df) t" and "complete_row r" by auto
    then show "is_number (snd (snd r))"
      using complete_kinds(3) [of L "label_format L df" t] by simp
  qed
  from 1 2 3 4 5 6 show ?thesis by blast
qed

lemma reshape_two_columns:
  assumes "length ids = length vs" and "l \<noteq> Str ''HICP''" and "\<not> is_id_label l"
      and "is_id_label h"
  shows "reshape [(h, ids), (l, vs)] =
     Inr (long_frame (map (\<lambda>r. (normalise (fst r), fst (snd r), normalise (snd (snd r))))
            (map (\<lambda>(c, v). (c, l, v)) (zip ids vs))))"
proof -
  have rect: "rectangular [(h, ids), (l, vs)]"
    using assms(1) by (simp add: rectangular_def nrows_def)
  have "h \<noteq> Str ''HICP''" using assms(4) by (auto simp: is_id_label_def)
  then show ?thesis
    unfolding reshape_cases [OF rect]
    using assms(2,3,4)
    by (simp add: retained_2 period_columns_def melted_rows_def)
qed

text \<open>
  The statement at a sheet whose only label is no date (the date error), at a sheet
  whose second label is no date (the format of the first label decides: ValueError), at a
  sheet with a null label and at a sheet with a non-numeric value (both return).
\<close>

theorem type_enforcement_asymmetric_witness:
  "rectangular unparsed_sheet
   \<and> reshape unparsed_sheet = Inr (long_frame [(Str ''FR'', Str ''GEO'', Num (Finite 100))])
   \<and> cleaning_dataframe scenario_library unparsed_sheet = Inl DateParseError
   \<and> rectangular late_label_sheet
   \<and> reshape late_label_sheet =
        Inr (long_frame [(Str ''FR'', Str ''2020-01'', Num (Finite 100)),
                         (Str ''FR'', Str ''GEO'', Num (Finite 101))])
   \<and> cleaning_dataframe scenario_library late_label_sheet = Inl ValueError
   \<and> rectangular null_label_sheet
   \<and> reshape null_label_sheet = Inr (long_frame [(Str ''FR'', NaN, Num (Finite 100))])
   \<and> cleaning_dataframe scenario_library null_label_sheet = Inr (long_frame [])
   \<and> rectangular text_sheet
   \<and> reshape text_sheet =
        Inr (long_frame [(Str ''FR'', Str ''2020-02'', Str ''abc''),
                         (Str ''DE'', Str ''2020-02'', Str ''99.5'')])
   \<and> cleaning_dataframe scenario_library text_sheet =
        Inr (long_frame [(Str ''DE'', Stamp (Timestamp 2020 2 1), Num (Finite 99.5))])"
proof -
  have r1: "rectangular unparsed_sheet" and r2: "rectangular text_sheet"
    and r3: "rectangular late_label_sheet" and r4: "rectangular null_label_sheet"
    by (simp_all add: rectangular_def unparsed_sheet_def text_sheet_def late_label_sheet_def
        null_label_sheet_def nrows_def)
  have s1: "reshape unparsed_sheet = Inr (long_frame [(Str ''FR'', Str ''GEO'', Num (Finite 100))])"
    by (simp add: unparsed_sheet_def reshape_two_columns is_id_label_def normalise_def)
  have s2: "reshape text_sheet =
        Inr (long_frame [(Str ''FR'', Str ''2020-02'', Str ''abc''),
                         (Str ''DE'', Str ''2020-02'', Str ''99.5'')])"
    by (simp add: text_sheet_def reshape_two_columns is_id_label_def normalise_def)
  have s3: "reshape late_label_sheet =
        Inr (long_frame [(Str ''FR'', Str ''2020-01'', Num (Finite 100)),
                         (Str ''FR'', Str ''GEO'', Num (Finite 101))])"
    by (simp add: late_label_sheet_def four_column_cleaning(2) is_id_label_def normalise_def)
  have s4: "reshape null_label_sheet = Inr (long_frame [(Str ''FR'', NaN, Num (Finite 100))])"
    by (simp add: null_label_sheet_def reshape_two_columns is_id_label_def normalise_def)
  from type_enforcement_asymmetric [OF r1 s1, of scenario_library]
    type_enforcement_asymmetric [OF r2 s2, of scenario_library]
    type_enforcement_asymmetric [OF r3 s3, of scenario_library]
    type_enforcement_asymmetric [OF r4 s4, of scenario_library]
    r1 r2 r3 r4 s1 s2 s3 s4
  show ?thesis by (simp add: sheet_evaluations format_evaluations)
qed

text \<open>
  Claim C9 as stated fails: the label GEO cannot be parsed as a date, but the sheet has
  no rows, so the Date column is empty and the cleaner returns the empty table instead
  of raising; and a missing label is no date either, yet its row is dropped silently.
\<close>

theorem unparsed_label_returns:
  "map fst (period_columns rowless_sheet) = [Str ''GEO'']
   \<and> parse_datetime scenario_library ''GEO'' = Fails DateParseError
   \<and> cleaning_dataframe scenario_library rowless_sheet = Inr (long_frame [])
   \<and> map fst (period_columns null_label_sheet) = [NaN]
   \<and> cleaning_dataframe scenario_library null_label_sheet = Inr (long_frame [])"
  by (simp add: sheet_evaluations)
     (simp add: rowless_sheet_def null_label_sheet_def period_columns_def retained_2
      is_id_label_def scenario_library_def)

text \<open>
  Claim C10. The rows of a cleaned table are the complete ones among the observations
  taken column by column: for each retained period column from left to right (the
  columns at odd positions, the identifier column apart), one observation per row of the
  sheet from top to bottom; the final filter keeps the survivors in that order.
\<close>

theorem cleaning_column_major:
  assumes "rectangular df" and "cleaning_dataframe L df = Inr out"
  shows "out = long_frame (filter complete_row (map (observation L (label_format L df))
           (concat (map (\<lambda>(l, vs). map (\<lambda>(c, v). (c, l, v)) (zip (id_values df) vs))
              (period_columns df)))))
       \<and> period_columns df =
           filter (\<lambda>(l, vs). \<not> is_id_label l)
             (map (\<lambda>i. df ! i) (0 # filter (\<lambda>i. i mod 2 \<noteq> 0) [0..<length df]))
       \<and> list_all (\<lambda>(l, vs). length vs = length (id_values df)) (period_columns df)"
proof -
  note cs = cleaning_success [OF assms]
  have ne: "df \<noteq> []" by (rule cs(4))
  obtain h where f: "filter (\<lambda>(l, vs). is_id_label l) (retained df) = [(h, id_values df)]"
    using cs(3) by blast
  have "(h, id_values df) \<in> set (filter (\<lambda>(l, vs). is_id_label l) (retained df))"
    unfolding f by simp
  then have "(h, id_values df) \<in> set (retained df)" by simp
  then have idlen: "length (id_values df) = nrows df"
    using retained_lengths [OF assms(1) ne] by blast
  have 1: "out = long_frame (filter complete_row (map (observation L (label_format L df))
           (concat (map (\<lambda>(l, vs). map (\<lambda>(c, v). (c, l, v)) (zip (id_values df) vs))
              (period_columns df)))))"
    using cs(1) by (simp add: melted_rows_def)
  have 2: "period_columns df =
           filter (\<lambda>(l, vs). \<not> is_id_label l)
             (map (\<lambda>i. df ! i) (0 # filter (\<lambda>i. i mod 2 \<noteq> 0) [0..<length df]))"
    by (simp add: period_columns_def retained_def selected_positions_def)
  have 3: "list_all (\<lambda>(l, vs). length vs = length (id_values df)) (period_columns df)"
    unfolding list_all_iff period_columns_def
    using retained_lengths [OF assms(1) ne] idlen by auto
  from 1 2 3 show ?thesis by blast
qed

text \<open>The statement at a sheet of two rows and two periods, all valid.\<close>

theorem cleaning_column_major_witness:
  "rectangular full_sheet
   \<and> cleaning_dataframe scenario_library full_sheet =
       Inr (long_frame [(Str ''FR'', Stamp (Timestamp 2020 1 1), Num (Finite 1)),
                        (Str ''DE'', Stamp (Timestamp 2020 1 1), Num (Finite 2)),
                        (Str ''FR'', Stamp (Timestamp 2020 2 1), Num (Finite 3)),
                        (Str ''DE'', Stamp (Timestamp 2020 2 1), Num (Finite 4))])
   \<and> id_values full_sheet = [Str ''FR'', Str ''DE'']
   \<and> period_columns full_sheet =
       [(Str ''2020-01'', [Num (Finite 1), Num (Finite 2)]),
        (Str ''2020-02'', [Num (Finite 3), Num (Finite 4)])]"
proof -
  have r: "rectangular full_sheet"
    by (simp add: rectangular_def full_sheet_def nrows_def)
  have ne: "full_sheet \<noteq> []" by (simp add: full_sheet_def)
  have ret: "retained full_sheet =
     [(Str ''TIME'', [Str ''FR'', Str ''DE'']),
      (Str ''2020-01'', [Num (Finite 1), Num (Finite 2)]),
      (Str ''2020-02'', [Num (Finite 3), Num (Finite 4)])]"
    by (simp add: full_sheet_def retained_5)
  have i: "id_values full_sheet = [Str ''FR'', Str ''DE'']"
    by (simp add: id_values_def ret is_id_label_def)
  have p: "period_columns full_sheet =
       [(Str ''2020-01'', [Num (Finite 1), Num (Finite 2)]),
        (Str ''2020-02'', [Num (Finite 3), Num (Finite 4)])]"
    by (simp add: period_columns_def ret is_id_label_def)
  have c: "cleaning_dataframe scenario_library full_sheet =
       Inr (long_frame [(Str ''FR'', Stamp (Timestamp 2020 1 1), Num (Finite 1)),
                        (Str ''DE'', Stamp (Timestamp 2020 1 1), Num (Finite 2)),
                        (Str ''FR'', Stamp (Timestamp 2020 2 1), Num (Finite 3)),
                        (Str ''DE'', Stamp (Timestamp 2020 2 1), Num (Finite 4))])"
    unfolding cleaning_cases [OF r]
    using ne
    by (simp add: ret p melted_rows_def evaluation)
  from cleaning_column_major [OF r c] r c i p show ?thesis by simp
qed

lemma labelled_once:
  "distinct (map fst df) \<Longrightarrow> columns_labelled l df = [] \<or> (\<exists>vs. columns_labelled l df = [(l, vs)])"
proof (induction df)
  case Nil
  then show ?case by (simp add: columns_labelled_def)
next
  case (Cons a df)
  obtain l' vs' where a: "a = (l', vs')" by (cases a)
  show ?case
  proof (cases "l' = l")
    case True
    then have "l \<notin> fst ` set df" using Cons.prems by (simp add: a)
    then have "filter (\<lambda>(l', vs). l' = l) df = []"
      by (force simp: filter_empty_conv)
    then show ?thesis using True by (simp add: columns_labelled_def a)
  next
    case False
    then show ?thesis using Cons by (simp add: columns_labelled_def a)
  qed
qed

lemma labelled_get_column:
  assumes "distinct (map fst df)" and "columns_labelled (Str k) df \<noteq> []"
  shows "columns_labelled (Str k) df = [(Str k, get_column k df)]"
  using labelled_once [OF assms(1), of "Str k"] assms(2) by (auto simp: get_column_def)

lemma labelled_length:
  assumes "rectangular df" and "columns_labelled (Str k) df = [(Str k, vs)]"
  shows "length vs = nrows df"
proof -
  have "(Str k, vs) \<in> set (columns_labelled (Str k) df)" unfolding assms(2) by simp
  then have "(Str k, vs) \<in> set df" by (simp add: columns_labelled_def)
  then show ?thesis using assms(1) by (auto simp: rectangular_def list_all_iff)
qed

lemma rename_by_map:
  assumes "distinct (map fst cm)" and "(k, new) \<in> set cm"
  shows "rename_label cm (Str k) = Str new"
  using assms by (simp add: rename_label_def)

lemma selected_columns:
  assumes "\<forall>k \<in> set ks. columns_labelled (Str k) df = [(Str k, get_column k df)]
                        \<and> length (get_column k df) = n"
  shows "concat (map (\<lambda>k. columns_labelled (Str k) df) ks) =
         map (\<lambda>(l, f). (l, map f [0..<n])) (map (\<lambda>k. (Str k, \<lambda>i. get_column k df ! i)) ks)"
  using assms
proof (induction ks)
  case Nil
  then show ?case by simp
next
  case (Cons k ks)
  then have "map (\<lambda>i. get_column k df ! i) [0..<n] = get_column k df"
    using map_nth [of "get_column k df"] by simp
  with Cons show ?case by simp
qed

lemma summary_core:
  assumes "\<forall>k \<in> set (k0 # rest). columns_labelled (Str k) df = [(Str k, get_column k df)]
                        \<and> length (get_column k df) = nrows df"
  shows "dropna (loc_rows (map (\<lambda>c. c \<noteq> Str ''Contents'') (get_column k0 df))
            (concat (map (\<lambda>k. columns_labelled (Str k) df) (k0 # rest)))) =
         map (\<lambda>k. (Str k, map (\<lambda>i. get_column k df ! i) (surviving_rows df (k0 # rest)))) (k0 # rest)"
proof -
  let ?ks = "k0 # rest"
  let ?n = "nrows df"
  let ?Q1 = "\<lambda>i. get_column k0 df ! i \<noteq> Str ''Contents''"
  let ?specs = "map (\<lambda>k. (Str k, \<lambda>i. get_column k df ! i)) ?ks"
  have len0: "length (get_column k0 df) = ?n" using assms by simp
  have m1: "map (\<lambda>c. c \<noteq> Str ''Contents'') (get_column k0 df) = map ?Q1 [0..<?n]"
    using map_index [of "\<lambda>c. c \<noteq> Str ''Contents''" "get_column k0 df"] len0 by simp
  have f1: "loc_rows (map ?Q1 [0..<?n]) (map (\<lambda>(l, f). (l, map f [0..<?n])) ?specs) =
            map (\<lambda>(l, f). (l, map f (filter ?Q1 [0..<?n]))) ?specs"
    unfolding loc_rows_def by (simp add: select_rows_map)
  have q2: "(\<lambda>t. list_all (\<lambda>(l, f). f t \<noteq> NaN) ?specs) =
            (\<lambda>i. list_all (\<lambda>k. get_column k df ! i \<noteq> NaN) ?ks)"
    by (simp add: list_all_iff fun_eq_iff)
  have surv: "filter (\<lambda>i. list_all (\<lambda>k. get_column k df ! i \<noteq> NaN) ?ks) (filter ?Q1 [0..<?n]) =
              surviving_rows df ?ks"
    by (simp add: surviving_rows_def)
  have dn: "dropna (map (\<lambda>(l, f). (l, map f (filter ?Q1 [0..<?n]))) ?specs) =
            map (\<lambda>(l, f). (l, map f (surviving_rows df ?ks))) ?specs"
    unfolding dropna_rows q2 surv ..
  have fin: "map (\<lambda>(l, f). (l, map f (surviving_rows df ?ks))) ?specs =
             map (\<lambda>k. (Str k, map (\<lambda>i. get_column k df ! i) (surviving_rows df ?ks))) ?ks"
    by simp
  show ?thesis
    unfolding selected_columns [OF assms] m1 f1 dn fin ..
qed

text \<open>
  Claim C8. For a table with distinct labels and a map with distinct keys, whenever
  \<open>load_summary\<close> returns: the result has one column per key, in the order of the map
  and under the map's new name; it holds the cells of that key's column at the
  surviving row positions, in increasing order; and a row survives exactly when its cell
  in the first key's column is not the text Contents and none of its cells in the
  selected columns is missing.
\<close>

theorem load_summary_rows:
  assumes rect: "rectangular df"
      and dl: "distinct (map fst df)"
      and dk: "distinct (map fst columns_map)"
      and ok: "load_summary df columns_map = Inr out"
  shows "out = map (\<lambda>(k, new).
                  (Str new, map (\<lambda>i. get_column k df ! i)
                              (surviving_rows df (map fst columns_map))))
               columns_map"
proof -
  from ok obtain k0 rest where keys: "map fst columns_map = k0 # rest"
    by (cases "map fst columns_map") (auto simp: load_summary_def)
  from ok have present: "\<forall>k \<in> set (k0 # rest). columns_labelled (Str k) df \<noteq> []"
    unfolding load_summary_def keys Let_def
    by (auto simp: list_ex_iff split: list.splits if_splits prod.splits)
  have single: "\<forall>k \<in> set (k0 # rest). columns_labelled (Str k) df = [(Str k, get_column k df)]
                        \<and> length (get_column k df) = nrows df"
  proof (intro ballI conjI)
    fix k assume "k \<in> set (k0 # rest)"
    then have "columns_labelled (Str k) df \<noteq> []" using present by blast
    then show s: "columns_labelled (Str k) df = [(Str k, get_column k df)]"
      by (rule labelled_get_column [OF dl])
    show "length (get_column k df) = nrows df"
      by (rule labelled_length [OF rect s])
  qed
  have kv: "columns_labelled (Str k0) df = [(Str k0, get_column k0 df)]"
    using single by simp
  have "load_summary df columns_map =
        Inr (rename_columns columns_map
          (dropna (loc_rows (map (\<lambda>c. c \<noteq> Str ''Contents'') (get_column k0 df))
             (concat (map (\<lambda>k. columns_labelled (Str k) df) (k0 # rest))))))"
    unfolding load_summary_def keys Let_def
    using present by (simp add: kv list_ex_iff)
  then have out1: "out = rename_columns columns_map
       (map (\<lambda>k. (Str k, map (\<lambda>i. get_column k df ! i) (surviving_rows df (k0 # rest)))) (k0 # rest))"
    using ok unfolding summary_core [OF single] by simp
  have "rename_columns columns_map
       (map (\<lambda>k. (Str k, map (\<lambda>i. get_column k df ! i) (surviving_rows df (map fst columns_map))))
          (map fst columns_map)) =
     map (\<lambda>(k, new). (Str new, map (\<lambda>i. get_column k df ! i)
                              (surviving_rows df (map fst columns_map)))) columns_map"
    unfolding rename_columns_def
    by (auto simp: comp_def rename_by_map [OF dk] intro!: map_cong)
  then show ?thesis unfolding out1 keys .
qed

lemma summary_evaluation:
  "load_summary summary_sheet summary_columns =
     Inr [(Str ''sheet_name'', [Str ''Sheet 1'', Str ''Sheet 3'']),
          (Str ''base'', [Str ''2015=100'', Str ''2015=100'']),
          (Str ''description'', [Str ''All-items HICP'', Str ''Energy''])]"
  by (simp add: load_summary_def summary_sheet_def summary_columns_def columns_labelled_def
      loc_rows_def select_rows_def dropna_def notna_mask_def nrows_def upt_2 upt_3 upt_4
      rename_columns_def rename_label_def)

text \<open>The statement at a summary sheet with a Contents row and a partial row.\<close>

theorem load_summary_rows_witness:
  "rectangular summary_sheet
   \<and> distinct (map fst summary_sheet)
   \<and> distinct (map fst summary_columns)
   \<and> load_summary summary_sheet summary_columns =
       Inr [(Str ''sheet_name'', [Str ''Sheet 1'', Str ''Sheet 3'']),
            (Str ''base'', [Str ''2015=100'', Str ''2015=100'']),
            (Str ''description'', [Str ''All-items HICP'', Str ''Energy''])]
   \<and> surviving_rows summary_sheet (map fst summary_columns) = [1, 3]"
proof -
  have r: "rectangular summary_sheet"
    by (simp add: rectangular_def summary_sheet_def nrows_def)
  have d1: "distinct (map fst summary_sheet)" by (simp add: summary_sheet_def)
  have d2: "distinct (map fst summary_columns)" by (simp add: summary_columns_def)
  have s: "surviving_rows summary_sheet (map fst summary_columns) = [1, 3]"
    by (simp add: surviving_rows_def summary_sheet_def summary_columns_def get_column_def
        columns_labelled_def nrows_def upt_4)
  from load_summary_rows [OF r d1 d2 summary_evaluation] r d1 d2 s summary_evaluation
  show ?thesis by simp
qed

end
